theory Spec2Isabelle
  imports Complex_Main "HOL-Library.AList"
begin

section \<open>Python values, exceptions and library functions\<close>

text \<open>
  The two tool modules \<^verbatim>\<open>tools/coder.py\<close> and \<^verbatim>\<open>tools/claude.py\<close> read the child's output
  one line at a time, decode each line with \<^verbatim>\<open>json.loads\<close> and inspect the decoded value with
  \<^verbatim>\<open>.get\<close>, \<^verbatim>\<open>==\<close>, \<^verbatim>\<open>isinstance\<close> and truth tests. A decoded value is dynamically typed, so
  it is modelled by one datatype; a \<^verbatim>\<open>dict\<close> is an association list in insertion order, read
  with \<^const>\<open>map_of\<close> and written with \<^const>\<open>AList.update\<close> (which keeps the position of an
  existing key and appends a new one, as assignment to a Python dict does). A Python
  \<^verbatim>\<open>str\<close> is a \<^typ>\<open>string\<close> holding its UTF-8 bytes.
\<close>

datatype json =
    JNull
  | JBool bool
  | JInt int
  | JFloat real
  | JStr string
  | JList "json list"
  | JObj "(string \<times> json) list"

text \<open>
  Every \<^verbatim>\<open>raise\<close> of the source and every exception of a library call is a value of
  \<open>exn\<close>. \<open>CommandTimeoutError\<close> carries its message and its \<^verbatim>\<open>is_idle\<close> attribute,
  \<open>CommandNotFoundError\<close> its message.
\<close>

datatype exn =
    JSONDecodeError
  | AttributeError
  | TypeError
  | RecursionError
  | UnboundLocalError
  | OSError
  | CommandNotFoundError string
  | CommandTimeoutError string bool

text \<open>The class \<^verbatim>\<open>ErrorKind\<close> of both modules; in Python each member is a non-empty string.\<close>

datatype ErrorKind =
    TIMEOUT
  | IDLE_TIMEOUT
  | COMMAND_NOT_FOUND
  | UPSTREAM_ERROR
  | JSON_DECODE
  | PROTOCOL_MISSING_SESSION
  | EMPTY_RESULT
  | SUBPROCESS_ERROR
  | CONFIG_ERROR
  | UNEXPECTED_EXCEPTION

text \<open>
  \<^verbatim>\<open>coder.py\<close> and \<^verbatim>\<open>claude.py\<close> are two copies of one engine that differ in a few places
  (message texts, one exception handler, the remediation hint); the model is written once and
  takes the module as a parameter.
\<close>

datatype tool = Coder | Claude

text \<open>
  Library functions whose code is not part of the repository are parameters of the model:
  \<^verbatim>\<open>json.loads\<close> (which raises \<^verbatim>\<open>JSONDecodeError\<close>, or \<^verbatim>\<open>RecursionError\<close> on deep nesting),
  \<^verbatim>\<open>json.dumps(_, ensure_ascii=False)\<close>, \<^verbatim>\<open>str.strip\<close>, \<^verbatim>\<open>str()\<close> of a decoded value and of an
  exception, \<^verbatim>\<open>repr\<close> of a line, and the iteration of a \<^verbatim>\<open>str\<close> into its one-character strings.
\<close>

record pylib =
  loads :: "string \<Rightarrow> exn + json"
  dumps :: "json \<Rightarrow> string"
  strip :: "string \<Rightarrow> string"
  str_json :: "json \<Rightarrow> string"
  str_exn :: "exn \<Rightarrow> string"
  repr_str :: "string \<Rightarrow> string"
  chars :: "string \<Rightarrow> string list"

text \<open>Python's truth test (\<^verbatim>\<open>if x\<close>, \<^verbatim>\<open>not x\<close>, \<^verbatim>\<open>x or y\<close>) on a decoded value.\<close>

fun truthy :: "json \<Rightarrow> bool" where
  "truthy JNull = False"
| "truthy (JBool b) = b"
| "truthy (JInt i) = (i \<noteq> 0)"
| "truthy (JFloat r) = (r \<noteq> 0)"
| "truthy (JStr s) = (s \<noteq> [])"
| "truthy (JList xs) = (xs \<noteq> [])"
| "truthy (JObj kvs) = (kvs \<noteq> [])"

definition py_or :: "json \<Rightarrow> json \<Rightarrow> json" where
  "py_or a b = (if truthy a then a else b)"

text \<open>
  \<^verbatim>\<open>d.get(k, default)\<close> on a dict (\<^verbatim>\<open>d.get(k)\<close> has the default \<^verbatim>\<open>None\<close>). No other value
  has the attribute \<^verbatim>\<open>get\<close>: there the call raises \<^verbatim>\<open>AttributeError\<close>, which the functions
  below write out where they take a value apart.
\<close>

definition dict_get :: "(string \<times> json) list \<Rightarrow> string \<Rightarrow> json \<Rightarrow> json" where
  "dict_get kvs k d = (case map_of kvs k of Some v \<Rightarrow> v | None \<Rightarrow> d)"

text \<open>\<^verbatim>\<open>k in d\<close> for a dict \<open>d\<close>.\<close>

definition has_key :: "(string \<times> json) list \<Rightarrow> string \<Rightarrow> bool" where
  "has_key kvs k = (map_of kvs k \<noteq> None)"

text \<open>\<^verbatim>\<open>"literal" + x\<close>: defined for a \<^verbatim>\<open>str\<close> only.\<close>

definition str_add :: "string \<Rightarrow> json \<Rightarrow> exn + json" where
  "str_add lit x = (case x of JStr s \<Rightarrow> Inr (JStr (lit @ s)) | _ \<Rightarrow> Inl TypeError)"

text \<open>
  \<^verbatim>\<open>x += "literal"\<close>: concatenation on a \<^verbatim>\<open>str\<close>; a \<^verbatim>\<open>list\<close> is extended by the characters
  of the literal; every other type raises \<^verbatim>\<open>TypeError\<close>.
\<close>

definition iadd_str :: "pylib \<Rightarrow> json \<Rightarrow> string \<Rightarrow> exn + json" where
  "iadd_str py x lit =
     (case x of
        JStr s \<Rightarrow> Inr (JStr (s @ lit))
      | JList xs \<Rightarrow> Inr (JList (xs @ map JStr (chars py lit)))
      | _ \<Rightarrow> Inl TypeError)"

text \<open>\<^verbatim>\<open>sep.join(parts)\<close>: raises \<^verbatim>\<open>TypeError\<close> unless every part is a \<^verbatim>\<open>str\<close>.\<close>

fun str_parts :: "json list \<Rightarrow> exn + string list" where
  "str_parts [] = Inr []"
| "str_parts (JStr s # xs) = (case str_parts xs of Inl e \<Rightarrow> Inl e | Inr ss \<Rightarrow> Inr (s # ss))"
| "str_parts (_ # xs) = Inl TypeError"

fun join :: "string \<Rightarrow> string list \<Rightarrow> string" where
  "join sep [] = []"
| "join sep [s] = s"
| "join sep (s # t # ss) = s @ sep @ join sep (t # ss)"

definition py_join :: "string \<Rightarrow> json list \<Rightarrow> exn + json" where
  "py_join sep parts =
     (case str_parts parts of Inl e \<Rightarrow> Inl e | Inr ss \<Rightarrow> Inr (JStr (join sep ss)))"

text \<open>\<^verbatim>\<open>s.split('\n')[0]\<close>: the text before the first newline.\<close>

definition first_line :: "string \<Rightarrow> string" where
  "first_line s = takeWhile (\<lambda>c. c \<noteq> CHR 0x0A) s"

text \<open>\<^verbatim>\<open>xs[-n:]\<close>, Python's slice from a negated bound.\<close>

definition slice_last :: "int \<Rightarrow> 'a list \<Rightarrow> 'a list" where
  "slice_last n xs =
     (if 0 < n then drop (length xs - nat n) xs else drop (nat (- n)) xs)"

text \<open>\<^verbatim>\<open>str(i)\<close> of an \<^verbatim>\<open>int\<close>, as the f-strings of the source format it.\<close>

fun show_nat :: "nat \<Rightarrow> string" where
  "show_nat n =
     (if n < 10 then [''0123456789'' ! n]
      else show_nat (n div 10) @ [''0123456789'' ! (n mod 10)])"

definition show_int :: "int \<Rightarrow> string" where
  "show_int i = (if i < 0 then CHR ''-'' # show_nat (nat (- i)) else show_nat (nat i))"

section \<open>Message texts\<close>

text \<open>
  The literals of the source, byte for byte in UTF-8 (most of them are Chinese text). The
  two modules share all of them but the tool's name, the sentence \<open>MSG_TERMINATED\<close> that
  \<^verbatim>\<open>coder.py\<close> appends to its timeout messages, and the installation guide line of its
  \<^verbatim>\<open>CommandNotFoundError\<close>.
\<close>

definition TRUNCATED :: string where
  "TRUNCATED = ''[truncated]''"

definition MSG_NO_SESSION :: string where
  "MSG_NO_SESSION =
     [CHR 0xE6, CHR 0x9C, CHR 0xAA, CHR 0xE8, CHR 0x83, CHR 0xBD, CHR 0xE8, CHR 0x8E, CHR 0xB7,
       CHR 0xE5, CHR 0x8F, CHR 0x96] @ '' SESSION_ID'' @ [CHR 0xE3, CHR 0x80, CHR 0x82,
       CHR 0x0A, CHR 0x0A]"

definition MSG_EMPTY_CODER :: string where
  "MSG_EMPTY_CODER =
     [CHR 0xE6, CHR 0x9C, CHR 0xAA, CHR 0xE8, CHR 0x83, CHR 0xBD, CHR 0xE8, CHR 0x8E, CHR 0xB7,
       CHR 0xE5, CHR 0x8F, CHR 0x96] @ '' Coder '' @ [CHR 0xE5, CHR 0x93, CHR 0x8D, CHR 0xE5,
       CHR 0xBA, CHR 0x94, CHR 0xE5, CHR 0x86, CHR 0x85, CHR 0xE5, CHR 0xAE, CHR 0xB9,
       CHR 0xE3, CHR 0x80, CHR 0x82, CHR 0x0A, CHR 0x0A]"

definition MSG_EMPTY_CLAUDE :: string where
  "MSG_EMPTY_CLAUDE =
     [CHR 0xE6, CHR 0x9C, CHR 0xAA, CHR 0xE8, CHR 0x83, CHR 0xBD, CHR 0xE8, CHR 0x8E, CHR 0xB7,
       CHR 0xE5, CHR 0x8F, CHR 0x96] @ '' Claude '' @ [CHR 0xE5, CHR 0x93, CHR 0x8D, CHR 0xE5,
       CHR 0xBA, CHR 0x94, CHR 0xE5, CHR 0x86, CHR 0x85, CHR 0xE5, CHR 0xAE, CHR 0xB9,
       CHR 0xE3, CHR 0x80, CHR 0x82, CHR 0x0A, CHR 0x0A]"

definition MSG_EXIT_PREFIX :: string where
  "MSG_EXIT_PREFIX =
     [CHR 0xE8, CHR 0xBF, CHR 0x9B, CHR 0xE7, CHR 0xA8, CHR 0x8B, CHR 0xE9, CHR 0x80, CHR 0x80,
       CHR 0xE5, CHR 0x87, CHR 0xBA, CHR 0xE7, CHR 0xA0, CHR 0x81, CHR 0xE9, CHR 0x9D,
       CHR 0x9E, CHR 0xE9, CHR 0x9B, CHR 0xB6, CHR 0xEF, CHR 0xBC, CHR 0x9A]"

definition MSG_UNKNOWN :: string where
  "MSG_UNKNOWN =
     [CHR 0xE6, CHR 0x9C, CHR 0xAA, CHR 0xE7, CHR 0x9F, CHR 0xA5, CHR 0xE9, CHR 0x94, CHR 0x99,
       CHR 0xE8, CHR 0xAF, CHR 0xAF]"

definition MSG_NOT_FOUND_CLAUDE :: string where
  "MSG_NOT_FOUND_CLAUDE =
     [CHR 0xE6, CHR 0x9C, CHR 0xAA, CHR 0xE6, CHR 0x89, CHR 0xBE, CHR 0xE5, CHR 0x88,
       CHR 0xB0] @ '' claude CLI'' @ [CHR 0xE3, CHR 0x80, CHR 0x82, CHR 0xE8, CHR 0xAF,
       CHR 0xB7, CHR 0xE7, CHR 0xA1, CHR 0xAE, CHR 0xE4, CHR 0xBF, CHR 0x9D, CHR 0xE5,
       CHR 0xB7, CHR 0xB2, CHR 0xE5, CHR 0xAE, CHR 0x89, CHR 0xE8, CHR 0xA3, CHR 0x85] @
       '' Claude Code CLI '' @ [CHR 0xE5, CHR 0xB9, CHR 0xB6, CHR 0xE6, CHR 0xB7, CHR 0xBB,
       CHR 0xE5, CHR 0x8A, CHR 0xA0, CHR 0xE5, CHR 0x88, CHR 0xB0] @ '' PATH'' @ [CHR 0xE3,
       CHR 0x80, CHR 0x82]"

definition MSG_NOT_FOUND_GUIDE :: string where
  "MSG_NOT_FOUND_GUIDE =
     [CHR 0x0A, CHR 0xE5, CHR 0xAE, CHR 0x89, CHR 0xE8, CHR 0xA3, CHR 0x85, CHR 0xE6, CHR 0x8C,
       CHR 0x87, CHR 0xE5, CHR 0x8D, CHR 0x97, CHR 0xEF, CHR 0xBC, CHR 0x9A] @
       ''https://docs.anthropic.com/en/docs/claude-code''"

definition MSG_CONFIG_PREFIX :: string where
  "MSG_CONFIG_PREFIX =
     [CHR 0xE9, CHR 0x85, CHR 0x8D, CHR 0xE7, CHR 0xBD, CHR 0xAE, CHR 0xE5, CHR 0x8A, CHR 0xA0,
       CHR 0xE8, CHR 0xBD, CHR 0xBD, CHR 0xE5, CHR 0xA4, CHR 0xB1, CHR 0xE8, CHR 0xB4,
       CHR 0xA5, CHR 0xEF, CHR 0xBC, CHR 0x9A]"

definition MSG_DURATION_A :: string where
  "MSG_DURATION_A =
     '' '' @ [CHR 0xE6, CHR 0x89, CHR 0xA7, CHR 0xE8, CHR 0xA1, CHR 0x8C, CHR 0xE8, CHR 0xB6,
       CHR 0x85, CHR 0xE6, CHR 0x97, CHR 0xB6, CHR 0xEF, CHR 0xBC, CHR 0x88, CHR 0xE6,
       CHR 0x80, CHR 0xBB, CHR 0xE6, CHR 0x97, CHR 0xB6, CHR 0xE9, CHR 0x95, CHR 0xBF,
       CHR 0xE8, CHR 0xB6, CHR 0x85, CHR 0xE8, CHR 0xBF, CHR 0x87] @ '' ''"

definition MSG_DURATION_B :: string where
  "MSG_DURATION_B =
     ''s'' @ [CHR 0xEF, CHR 0xBC, CHR 0x89]"

definition MSG_IDLE_A :: string where
  "MSG_IDLE_A =
     '' '' @ [CHR 0xE7, CHR 0xA9, CHR 0xBA, CHR 0xE9, CHR 0x97, CHR 0xB2, CHR 0xE8, CHR 0xB6,
       CHR 0x85, CHR 0xE6, CHR 0x97, CHR 0xB6, CHR 0xEF, CHR 0xBC, CHR 0x88]"

definition MSG_IDLE_B :: string where
  "MSG_IDLE_B =
     ''s '' @ [CHR 0xE6, CHR 0x97, CHR 0xA0, CHR 0xE8, CHR 0xBE, CHR 0x93, CHR 0xE5, CHR 0x87,
       CHR 0xBA, CHR 0xEF, CHR 0xBC, CHR 0x89]"

definition MSG_WAIT :: string where
  "MSG_WAIT =
     '' '' @ [CHR 0xE8, CHR 0xBF, CHR 0x9B, CHR 0xE7, CHR 0xA8, CHR 0x8B, CHR 0xE7, CHR 0xAD,
       CHR 0x89, CHR 0xE5, CHR 0xBE, CHR 0x85, CHR 0xE8, CHR 0xB6, CHR 0x85, CHR 0xE6,
       CHR 0x97, CHR 0xB6]"

definition MSG_TERMINATED :: string where
  "MSG_TERMINATED =
     [CHR 0xEF, CHR 0xBC, CHR 0x8C, CHR 0xE8, CHR 0xBF, CHR 0x9B, CHR 0xE7, CHR 0xA8, CHR 0x8B,
       CHR 0xE5, CHR 0xB7, CHR 0xB2, CHR 0xE7, CHR 0xBB, CHR 0x88, CHR 0xE6, CHR 0xAD,
       CHR 0xA2, CHR 0xE3, CHR 0x80, CHR 0x82]"

definition SUGGEST_IDLE :: string where
  "SUGGEST_IDLE =
     [CHR 0xE4, CHR 0xBB, CHR 0xBB, CHR 0xE5, CHR 0x8A, CHR 0xA1, CHR 0xE7, CHR 0xA9, CHR 0xBA,
       CHR 0xE9, CHR 0x97, CHR 0xB2, CHR 0xE8, CHR 0xB6, CHR 0x85, CHR 0xE6, CHR 0x97,
       CHR 0xB6, CHR 0xEF, CHR 0xBC, CHR 0x88, CHR 0xE6, CHR 0x97, CHR 0xA0, CHR 0xE8,
       CHR 0xBE, CHR 0x93, CHR 0xE5, CHR 0x87, CHR 0xBA, CHR 0xEF, CHR 0xBC, CHR 0x89,
       CHR 0xE3, CHR 0x80, CHR 0x82, CHR 0xE5, CHR 0xBB, CHR 0xBA, CHR 0xE8, CHR 0xAE,
       CHR 0xAE, CHR 0xEF, CHR 0xBC, CHR 0x9A] @ ''1) '' @ [CHR 0xE5, CHR 0xA2, CHR 0x9E,
       CHR 0xE5, CHR 0x8A, CHR 0xA0] @ '' timeout '' @ [CHR 0xE5, CHR 0x8F, CHR 0x82, CHR 0xE6,
       CHR 0x95, CHR 0xB0] @ '' 2) '' @ [CHR 0xE6, CHR 0xA3, CHR 0x80, CHR 0xE6, CHR 0x9F,
       CHR 0xA5, CHR 0xE4, CHR 0xBB, CHR 0xBB, CHR 0xE5, CHR 0x8A, CHR 0xA1, CHR 0xE6,
       CHR 0x98, CHR 0xAF, CHR 0xE5, CHR 0x90, CHR 0xA6, CHR 0xE5, CHR 0x8D, CHR 0xA1,
       CHR 0xE4, CHR 0xBD, CHR 0x8F] @ '' 3) '' @ [CHR 0xE6, CHR 0x8B, CHR 0x86, CHR 0xE5,
       CHR 0x88, CHR 0x86, CHR 0xE4, CHR 0xB8, CHR 0xBA, CHR 0xE6, CHR 0x9B, CHR 0xB4,
       CHR 0xE5, CHR 0xB0, CHR 0x8F, CHR 0xE7, CHR 0x9A, CHR 0x84, CHR 0xE5, CHR 0xAD,
       CHR 0x90, CHR 0xE4, CHR 0xBB, CHR 0xBB, CHR 0xE5, CHR 0x8A, CHR 0xA1]"

definition SUGGEST_DURATION :: string where
  "SUGGEST_DURATION =
     [CHR 0xE4, CHR 0xBB, CHR 0xBB, CHR 0xE5, CHR 0x8A, CHR 0xA1, CHR 0xE6, CHR 0x80, CHR 0xBB,
       CHR 0xE6, CHR 0x97, CHR 0xB6, CHR 0xE9, CHR 0x95, CHR 0xBF, CHR 0xE8, CHR 0xB6,
       CHR 0x85, CHR 0xE6, CHR 0x97, CHR 0xB6, CHR 0xE3, CHR 0x80, CHR 0x82, CHR 0xE5,
       CHR 0xBB, CHR 0xBA, CHR 0xE8, CHR 0xAE, CHR 0xAE, CHR 0xEF, CHR 0xBC, CHR 0x9A] @
       ''1) '' @ [CHR 0xE5, CHR 0xA2, CHR 0x9E, CHR 0xE5, CHR 0x8A, CHR 0xA0] @
       '' max_duration '' @ [CHR 0xE5, CHR 0x8F, CHR 0x82, CHR 0xE6, CHR 0x95, CHR 0xB0] @
       '' 2) '' @ [CHR 0xE6, CHR 0x8B, CHR 0x86, CHR 0xE5, CHR 0x88, CHR 0x86, CHR 0xE4,
       CHR 0xB8, CHR 0xBA, CHR 0xE6, CHR 0x9B, CHR 0xB4, CHR 0xE5, CHR 0xB0, CHR 0x8F,
       CHR 0xE7, CHR 0x9A, CHR 0x84, CHR 0xE5, CHR 0xAD, CHR 0x90, CHR 0xE4, CHR 0xBB,
       CHR 0xBB, CHR 0xE5, CHR 0x8A, CHR 0xA1] @ '' 3) '' @ [CHR 0xE6, CHR 0xA3, CHR 0x80,
       CHR 0xE6, CHR 0x9F, CHR 0xA5, CHR 0xE6, CHR 0x98, CHR 0xAF, CHR 0xE5, CHR 0x90,
       CHR 0xA6, CHR 0xE5, CHR 0xAD, CHR 0x98, CHR 0xE5, CHR 0x9C, CHR 0xA8, CHR 0xE6,
       CHR 0xAD, CHR 0xBB, CHR 0xE5, CHR 0xBE, CHR 0xAA, CHR 0xE7, CHR 0x8E, CHR 0xAF]"

definition tool_name :: "tool \<Rightarrow> string" where
  "tool_name t = (case t of Coder \<Rightarrow> ''coder'' | Claude \<Rightarrow> ''claude'')"

definition terminated_suffix :: "tool \<Rightarrow> string" where
  "terminated_suffix t = (case t of Coder \<Rightarrow> MSG_TERMINATED | Claude \<Rightarrow> [])"

definition duration_timeout_message :: "tool \<Rightarrow> int \<Rightarrow> string" where
  "duration_timeout_message t max_duration =
     tool_name t @ MSG_DURATION_A @ show_int max_duration @ MSG_DURATION_B @ terminated_suffix t"

definition idle_timeout_message :: "tool \<Rightarrow> int \<Rightarrow> string" where
  "idle_timeout_message t timeout =
     tool_name t @ MSG_IDLE_A @ show_int timeout @ MSG_IDLE_B @ terminated_suffix t"

definition wait_timeout_message :: "tool \<Rightarrow> string" where
  "wait_timeout_message t = tool_name t @ MSG_WAIT @ terminated_suffix t"

definition not_found_message :: "tool \<Rightarrow> string" where
  "not_found_message t =
     (case t of
        Coder \<Rightarrow> MSG_NOT_FOUND_CLAUDE @ MSG_NOT_FOUND_GUIDE
      | Claude \<Rightarrow> MSG_NOT_FOUND_CLAUDE)"

definition empty_result_message :: "tool \<Rightarrow> string" where
  "empty_result_message t = (case t of Coder \<Rightarrow> MSG_EMPTY_CODER | Claude \<Rightarrow> MSG_EMPTY_CLAUDE)"

definition exit_code_message :: "int \<Rightarrow> string" where
  "exit_code_message exit_code = MSG_EXIT_PREFIX @ show_int exit_code @ [CHR 0x0A, CHR 0x0A]"

section \<open>Redaction of diagnostic lines and the error detail\<close>

text \<open>
  The body of the loop \<^verbatim>\<open>for block in ...: if isinstance(block, dict) and
  block.get("type") == "tool_result": block["content"] = "[truncated]"\<close>, which both
  \<^verbatim>\<open>_filter_last_lines\<close> and the tool functions run over a deep copy of the message.
\<close>

definition redact_block :: "json \<Rightarrow> json" where
  "redact_block block =
     (case block of
        JObj kvs \<Rightarrow>
          (if dict_get kvs ''type'' JNull = JStr ''tool_result''
           then JObj (AList.update ''content'' (JStr TRUNCATED) kvs)
           else block)
      | _ \<Rightarrow> block)"

text \<open>
  \<^verbatim>\<open>message = data.get("message", {}); content = message.get("content")\<close> followed by the
  redaction when \<^verbatim>\<open>content\<close> is a list: \<open>Inl AttributeError\<close> when \<^verbatim>\<open>message\<close> is not a dict,
  \<open>Inr None\<close> when \<^verbatim>\<open>content\<close> is not a list, otherwise the redacted copy of the message.
\<close>

definition redacted_message :: "(string \<times> json) list \<Rightarrow> exn + json option" where
  "redacted_message kvs =
     (case dict_get kvs ''message'' (JObj []) of
        JObj m \<Rightarrow>
          (case dict_get m ''content'' JNull of
             JList blocks \<Rightarrow>
               Inr (Some (JObj (AList.update ''message''
                      (JObj (AList.update ''content'' (JList (map redact_block blocks)) m)) kvs)))
           | _ \<Rightarrow> Inr None)
      | _ \<Rightarrow> Inl AttributeError)"

text \<open>
  One iteration of the loop of \<^verbatim>\<open>_filter_last_lines\<close>: the element appended to
  \<^verbatim>\<open>filtered\<close>. The \<^verbatim>\<open>except\<close> clause catches \<^verbatim>\<open>JSONDecodeError\<close>, \<^verbatim>\<open>TypeError\<close> and
  \<^verbatim>\<open>AttributeError\<close>; any other exception of \<^verbatim>\<open>json.loads\<close> leaves the function.
\<close>

definition filter_line :: "pylib \<Rightarrow> string \<Rightarrow> exn + string" where
  "filter_line py line =
     (case loads py line of
        Inl e \<Rightarrow>
          (if e = JSONDecodeError \<or> e = TypeError \<or> e = AttributeError then Inr line
           else Inl e)
      | Inr data \<Rightarrow>
          (case data of
             JObj kvs \<Rightarrow>
               (if dict_get kvs ''type'' (JStr []) = JStr ''user'' then
                  (case redacted_message kvs of
                     Inl e \<Rightarrow> Inr line
                   | Inr None \<Rightarrow> Inr line
                   | Inr (Some d) \<Rightarrow> Inr (dumps py d))
                else Inr line)
           | _ \<Rightarrow> Inr line))"

fun filter_lines :: "pylib \<Rightarrow> string list \<Rightarrow> exn + string list" where
  "filter_lines py [] = Inr []"
| "filter_lines py (l # ls) =
     (case filter_line py l of
        Inl e \<Rightarrow> Inl e
      | Inr l' \<Rightarrow>
          (case filter_lines py ls of Inl e \<Rightarrow> Inl e | Inr ls' \<Rightarrow> Inr (l' # ls')))"

text \<open>\<^verbatim>\<open>_filter_last_lines(lines, max_lines)\<close>: \<^verbatim>\<open>return filtered[-max_lines:]\<close>.\<close>

definition filter_last_lines :: "pylib \<Rightarrow> string list \<Rightarrow> int \<Rightarrow> exn + string list" where
  "filter_last_lines py lines max_lines =
     (case filter_lines py lines of
        Inl e \<Rightarrow> Inl e
      | Inr filtered \<Rightarrow> Inr (slice_last max_lines filtered))"

text \<open>
  The dict built by \<^verbatim>\<open>_build_error_detail\<close>; \<open>None\<close> is a key that is not set. Only
  \<^verbatim>\<open>coder.py\<close> sets \<^verbatim>\<open>suggestion\<close>.
\<close>

record error_detail =
  message :: string
  detail_exit_code :: "int option"
  detail_last_lines :: "string list option"
  detail_json_decode_errors :: "int option"
  idle_timeout_s :: "int option"
  max_duration_s :: "int option"
  suggestion :: "string option"
  detail_retries :: "int option"

definition build_error_detail ::
  "pylib \<Rightarrow> tool \<Rightarrow> string \<Rightarrow> int option \<Rightarrow> string list option \<Rightarrow> int \<Rightarrow> int option \<Rightarrow>
     int option \<Rightarrow> int \<Rightarrow> exn + error_detail" where
  "build_error_detail py t msg code shown_lines decode_errors idle_s max_s n_retries =
     (case (case shown_lines of
              None \<Rightarrow> Inr None
            | Some ls \<Rightarrow>
                (if ls = [] then Inr None
                 else (case filter_last_lines py ls 50 of
                         Inl e \<Rightarrow> Inl e
                       | Inr fl \<Rightarrow> Inr (Some fl)))) of
        Inl e \<Rightarrow> Inl e
      | Inr shown \<Rightarrow>
          Inr \<lparr> message = msg,
                detail_exit_code = code,
                detail_last_lines = shown,
                detail_json_decode_errors =
                  (if 0 < decode_errors then Some decode_errors else None),
                idle_timeout_s = idle_s,
                max_duration_s = max_s,
                suggestion =
                  (case t of
                     Claude \<Rightarrow> None
                   | Coder \<Rightarrow>
                       (if max_s \<noteq> None then Some SUGGEST_DURATION
                        else if idle_s \<noteq> None then Some SUGGEST_IDLE
                        else None)),
                detail_retries = (if 0 < n_retries then Some n_retries else None) \<rparr>)"

section \<open>The supervisor loop of the generator\<close>

text \<open>
  The generator of \<^verbatim>\<open>safe_coder_command\<close> / \<^verbatim>\<open>safe_claude_command\<close> polls a queue that a
  reader thread fills. What the main thread observes in one cycle of its \<^verbatim>\<open>while True\<close> loop is
  scripted: the clock reading \<^verbatim>\<open>now\<close> at the top of the cycle, the outcome of
  \<^verbatim>\<open>output_queue.get(timeout=0.5)\<close>, and the clock reading stored in \<^verbatim>\<open>last_activity_time\<close>
  when a line arrived. \<open>QEmpty b\<close> is \<^verbatim>\<open>queue.Empty\<close>, with \<open>b\<close> the value of
  \<^verbatim>\<open>process.poll() is not None and not thread.is_alive()\<close>. Clock readings are real numbers.
\<close>

datatype qitem = QLine string | QSentinel | QEmpty bool

datatype poll = Poll real qitem real

text \<open>
  The two checks at the top of a cycle, in the order of the source. The result is the
  \<^verbatim>\<open>timeout_error\<close> the cycle sets: the message and the \<^verbatim>\<open>is_idle\<close> flag of the
  \<^verbatim>\<open>CommandTimeoutError\<close>.
\<close>

definition check_timeouts ::
  "tool \<Rightarrow> int \<Rightarrow> int \<Rightarrow> real \<Rightarrow> real \<Rightarrow> real \<Rightarrow> (string \<times> bool) option" where
  "check_timeouts t idle_limit duration_limit start_time last_activity_time now =
     (if 0 < duration_limit \<and> real_of_int duration_limit \<le> now - start_time
      then Some (duration_timeout_message t duration_limit, False)
      else if real_of_int idle_limit \<le> now - last_activity_time
      then Some (idle_timeout_message t idle_limit, True)
      else None)"

text \<open>
  The \<^verbatim>\<open>while True\<close> loop over a script of cycles: the lines it yields (non-empty lines only)
  and the \<^verbatim>\<open>timeout_error\<close> it leaves the loop with. \<open>None\<close>: the script ends while the loop is
  still polling.
\<close>

fun poll_loop ::
  "tool \<Rightarrow> int \<Rightarrow> int \<Rightarrow> real \<Rightarrow> real \<Rightarrow> poll list \<Rightarrow>
     (string list \<times> (string \<times> bool) option) option" where
  "poll_loop t idle_limit duration_limit start_time last_activity_time [] = None"
| "poll_loop t idle_limit duration_limit start_time last_activity_time (Poll now q touched # ps) =
     (case check_timeouts t idle_limit duration_limit start_time last_activity_time now of
        Some e \<Rightarrow> Some ([], Some e)
      | None \<Rightarrow>
          (case q of
             QSentinel \<Rightarrow> Some ([], None)
           | QLine l \<Rightarrow>
               (case poll_loop t idle_limit duration_limit start_time touched ps of
                  None \<Rightarrow> None
                | Some (ls, r) \<Rightarrow> Some ((if l \<noteq> [] then [l] else []) @ ls, r))
           | QEmpty finished \<Rightarrow>
               (if finished then Some ([], None)
                else poll_loop t idle_limit duration_limit start_time last_activity_time ps)))"

text \<open>
  How a generator ends: it returns \<^verbatim>\<open>(exit_code, raw_output_lines)\<close> or raises
  \<^verbatim>\<open>CommandTimeoutError(message, is_idle)\<close>.
\<close>

datatype gen_end = GenReturn "int option" int | GenTimeout string bool

text \<open>
  The rest of what one child process shows: the two clock readings taken before the loop,
  the result of \<^verbatim>\<open>process.wait(timeout=5)\<close> (\<open>None\<close> for \<^verbatim>\<open>TimeoutExpired\<close>), the items left in
  the queue after the reader thread was joined (\<open>None\<close> is the sentinel), and the reader's
  count of non-empty lines.
\<close>

record child_script =
  start_reading :: real
  first_activity_reading :: real
  polls :: "poll list"
  wait_result :: "int option"
  residue :: "string option list"
  raw_count :: int

definition generator ::
  "tool \<Rightarrow> int \<Rightarrow> int \<Rightarrow> child_script \<Rightarrow> (string list \<times> gen_end) option" where
  "generator t idle_limit duration_limit sc =
     (case poll_loop t idle_limit duration_limit (start_reading sc) (first_activity_reading sc)
             (polls sc) of
        None \<Rightarrow> None
      | Some (ls, Some (m, is_idle)) \<Rightarrow> Some (ls, GenTimeout m is_idle)
      | Some (ls, None) \<Rightarrow>
          (case wait_result sc of
             None \<Rightarrow> Some (ls, GenTimeout (wait_timeout_message t) False)
           | Some code \<Rightarrow>
               Some (ls @ concat (map (\<lambda>item. case item of None \<Rightarrow> [] | Some l \<Rightarrow> [l])
                                     (residue sc)),
                     GenReturn (Some code) (raw_count sc))))"

section \<open>The state of a tool function\<close>

text \<open>
  The local variables that \<^verbatim>\<open>coder_tool\<close> / \<^verbatim>\<open>claude_tool\<close> assign at the top of every
  iteration of the retry loop (source lines 692-703 and 451-462).
\<close>

record run_state =
  all_messages :: "json list"
  result_content :: json
  success :: bool
  had_error :: bool
  err_message :: json
  session_id :: json
  exit_code :: "int option"
  raw_output_lines :: int
  json_decode_errors :: int
  error_kind :: "ErrorKind option"
  last_lines :: "string list"
  assistant_text_parts :: "json list"

text \<open>The dict \<^verbatim>\<open>last_error\<close>.\<close>

record error_info =
  info_error_kind :: "ErrorKind option"
  info_err_message :: json
  info_exit_code :: "int option"
  info_json_decode_errors :: int
  info_raw_output_lines :: int

text \<open>
  All variables of the function: the three that live across iterations (\<^verbatim>\<open>retries\<close>,
  \<^verbatim>\<open>last_error\<close>, \<^verbatim>\<open>all_last_lines\<close>) and the per-attempt ones in \<open>run\<close>, which are unbound
  until the loop body has run once (\<open>bound\<close>). Two more fields record the effects a caller
  cannot see in the returned value: how many times \<^verbatim>\<open>safe_*_command\<close> was entered, and the
  arguments of the calls of \<^verbatim>\<open>time.sleep\<close>, in order.
\<close>

record tool_state =
  retries :: int
  last_error :: "error_info option"
  all_last_lines :: "string list"
  run :: run_state
  bound :: bool
  entered :: nat
  slept :: "real list"

definition initial_run :: run_state where
  "initial_run =
     \<lparr> all_messages = [], result_content = JStr [], success = True, had_error = False,
       err_message = JStr [], session_id = JNull, exit_code = None, raw_output_lines = 0,
       json_decode_errors = 0, error_kind = None, last_lines = [],
       assistant_text_parts = [] \<rparr>"

definition initial_state :: tool_state where
  "initial_state =
     \<lparr> retries = 0, last_error = None, all_last_lines = [], run = initial_run, bound = False,
       entered = 0, slept = [] \<rparr>"

text \<open>The assignments at the top of the loop body.\<close>

definition begin_attempt :: "tool_state \<Rightarrow> tool_state" where
  "begin_attempt s =
     s\<lparr> run := (run s)\<lparr> all_messages := [], result_content := JStr [], success := True,
                         had_error := False, err_message := JStr [], session_id := JNull,
                         exit_code := None, raw_output_lines := 0, json_decode_errors := 0,
                         error_kind := None, last_lines := [], assistant_text_parts := [] \<rparr>,
        bound := True \<rparr>"

section \<open>Interpreting one output line\<close>

text \<open>\<^verbatim>\<open>last_lines.append(line); if len(last_lines) > 50: last_lines.pop(0)\<close>\<close>

definition push_line :: "string list \<Rightarrow> string \<Rightarrow> string list" where
  "push_line ls l = (if 50 < length (ls @ [l]) then tl (ls @ [l]) else ls @ [l])"

text \<open>
  The block under \<^verbatim>\<open>if return_all_messages:\<close>. The result is the state reached and the
  exception raised there, if any.
\<close>

definition collect_message ::
  "bool \<Rightarrow> run_state \<Rightarrow> (string \<times> json) list \<Rightarrow> json \<Rightarrow> run_state \<times> exn option" where
  "collect_message return_all st kvs msg_type =
     (if return_all then
        (if msg_type = JStr ''user'' then
           (case redacted_message kvs of
              Inl e \<Rightarrow> (st, Some e)
            | Inr None \<Rightarrow> (st\<lparr>all_messages := all_messages st @ [JObj kvs]\<rparr>, None)
            | Inr (Some d) \<Rightarrow> (st\<lparr>all_messages := all_messages st @ [d]\<rparr>, None))
         else (st\<lparr>all_messages := all_messages st @ [JObj kvs]\<rparr>, None))
      else (st, None))"

text \<open>
  What one block of an assistant message adds to \<^verbatim>\<open>assistant_text_parts\<close>: the value of its
  \<^verbatim>\<open>text\<close> key when the block is a dict of type \<^verbatim>\<open>"text"\<close> and that value is truthy.
\<close>

definition block_text :: "json \<Rightarrow> json list" where
  "block_text block =
     (case block of
        JObj kvs \<Rightarrow>
          (if dict_get kvs ''type'' JNull = JStr ''text'' \<and> truthy (dict_get kvs ''text'' (JStr []))
           then [dict_get kvs ''text'' (JStr [])]
           else [])
      | _ \<Rightarrow> [])"

text \<open>The \<^verbatim>\<open>if\<close> / \<^verbatim>\<open>elif\<close> chain on \<^verbatim>\<open>msg_type\<close>.\<close>

definition dispatch ::
  "pylib \<Rightarrow> run_state \<Rightarrow> (string \<times> json) list \<Rightarrow> json \<Rightarrow> run_state \<times> exn option" where
  "dispatch py st kvs msg_type =
     (if msg_type = JStr ''system'' \<and> dict_get kvs ''subtype'' JNull = JStr ''init'' then
        (st\<lparr>session_id := dict_get kvs ''session_id'' JNull\<rparr>, None)
      else if msg_type = JStr ''assistant'' then
        (case dict_get kvs ''message'' (JObj []) of
           JObj m \<Rightarrow>
             (case dict_get m ''content'' JNull of
                JList blocks \<Rightarrow>
                  (st\<lparr>assistant_text_parts :=
                        assistant_text_parts st @ concat (map block_text blocks)\<rparr>, None)
              | _ \<Rightarrow> (st, None))
         | _ \<Rightarrow> (st, Some AttributeError))
      else if msg_type = JStr ''result'' then
        (let st1 = (if has_key kvs ''result''
                    then st\<lparr>result_content := dict_get kvs ''result'' (JStr [])\<rparr> else st);
             st2 = (if \<not> truthy (session_id st1) \<and> has_key kvs ''session_id''
                    then st1\<lparr>session_id := dict_get kvs ''session_id'' JNull\<rparr> else st1);
             st3 = (if truthy (dict_get kvs ''is_error'' JNull)
                    then st2\<lparr>had_error := True,
                             err_message := py_or (dict_get kvs ''result'' (JStr []))
                                                  (dict_get kvs ''error'' (JStr [])),
                             error_kind := Some UPSTREAM_ERROR\<rparr>
                    else st2)
         in (st3, None))
      else if msg_type = JStr ''error'' then
        (case dict_get kvs ''error'' (JObj []) of
           JObj ed \<Rightarrow>
             (st\<lparr>had_error := True,
                 err_message := dict_get ed ''message'' (JStr (str_json py (JObj kvs))),
                 error_kind := Some UPSTREAM_ERROR\<rparr>, None)
         | _ \<Rightarrow> (st\<lparr>had_error := True\<rparr>, Some AttributeError))
      else (st, None))"

text \<open>
  The statements of the inner \<^verbatim>\<open>try\<close> block after \<^verbatim>\<open>json.loads\<close>, on the decoded value.
  \<^verbatim>\<open>line_dict.get\<close> raises \<^verbatim>\<open>AttributeError\<close> when the line decodes to anything but a dict.
\<close>

definition on_decoded :: "pylib \<Rightarrow> bool \<Rightarrow> run_state \<Rightarrow> json \<Rightarrow> run_state \<times> exn option" where
  "on_decoded py return_all st line_dict =
     (case line_dict of
        JObj kvs \<Rightarrow>
          (case collect_message return_all st kvs (dict_get kvs ''type'' (JStr [])) of
             (st1, Some e) \<Rightarrow> (st1, Some e)
           | (st1, None) \<Rightarrow> dispatch py st1 kvs (dict_get kvs ''type'' (JStr [])))
      | _ \<Rightarrow> (st, Some AttributeError))"

text \<open>
  How the loop body ends for one line: \<^verbatim>\<open>continue\<close> (or falling through), \<^verbatim>\<open>break\<close>, or an
  exception that leaves the \<^verbatim>\<open>for\<close> loop.
\<close>

datatype step = Continue run_state | Break run_state | Raise run_state exn

text \<open>
  The text appended by the handler of \<^verbatim>\<open>coder.py\<close>:
  \<^verbatim>\<open>f"\n\n[unexpected error] {error}. Line: {line!r}"\<close>.
\<close>

definition unexpected_text :: "pylib \<Rightarrow> exn \<Rightarrow> string \<Rightarrow> string" where
  "unexpected_text py e line =
     [CHR 0x0A, CHR 0x0A] @ ''[unexpected error] '' @ str_exn py e @ ''. Line: '' @ repr_str py line"

text \<open>
  The \<^verbatim>\<open>except\<close> clauses of the inner \<^verbatim>\<open>try\<close>. Both modules have
  \<^verbatim>\<open>except json.JSONDecodeError\<close>; only \<^verbatim>\<open>coder.py\<close> has \<^verbatim>\<open>except Exception as error\<close>
  (lines 773-777), whose first statement \<^verbatim>\<open>err_message += ...\<close> can itself raise.
\<close>

definition handle_exception :: "pylib \<Rightarrow> tool \<Rightarrow> run_state \<Rightarrow> exn \<Rightarrow> string \<Rightarrow> step" where
  "handle_exception py t st e line =
     (if e = JSONDecodeError then
        Continue (st\<lparr>json_decode_errors := json_decode_errors st + 1\<rparr>)
      else
        (case t of
           Claude \<Rightarrow> Raise st e
         | Coder \<Rightarrow>
             (case iadd_str py (err_message st) (unexpected_text py e line) of
                Inl e' \<Rightarrow> Raise st e'
              | Inr m \<Rightarrow>
                  Break (st\<lparr>err_message := m, had_error := True,
                            error_kind := Some UNEXPECTED_EXCEPTION\<rparr>))))"

text \<open>The body of \<^verbatim>\<open>for line in gen\<close>.\<close>

definition process_line :: "pylib \<Rightarrow> tool \<Rightarrow> bool \<Rightarrow> run_state \<Rightarrow> string \<Rightarrow> step" where
  "process_line py t return_all st line =
     (let st0 = st\<lparr>last_lines := push_line (last_lines st) line\<rparr> in
      case loads py (strip py line) of
        Inl e \<Rightarrow> handle_exception py t st0 e line
      | Inr line_dict \<Rightarrow>
          (case on_decoded py return_all st0 line_dict of
             (st1, None) \<Rightarrow> Continue st1
           | (st1, Some e) \<Rightarrow> handle_exception py t st1 e line))"

text \<open>
  The \<^verbatim>\<open>for\<close> loop over the lines the generator yields. When the generator returns, the
  \<^verbatim>\<open>for\<close> statement consumes its \<^verbatim>\<open>StopIteration\<close>, so the clause
  \<^verbatim>\<open>except StopIteration as e\<close> around the loop never runs and \<^verbatim>\<open>exit_code\<close> and
  \<^verbatim>\<open>raw_output_lines\<close> keep their initial values. When the generator raises
  \<^verbatim>\<open>CommandTimeoutError\<close>, the exception leaves the loop.
\<close>

fun consume ::
  "pylib \<Rightarrow> tool \<Rightarrow> bool \<Rightarrow> run_state \<Rightarrow> string list \<Rightarrow> gen_end \<Rightarrow> run_state \<times> exn option" where
  "consume py t return_all st [] (GenReturn code n) = (st, None)"
| "consume py t return_all st [] (GenTimeout m idle) = (st, Some (CommandTimeoutError m idle))"
| "consume py t return_all st (l # ls) fin =
     (case process_line py t return_all st l of
        Continue st' \<Rightarrow> consume py t return_all st' ls fin
      | Break st' \<Rightarrow> (st', None)
      | Raise st' e \<Rightarrow> (st', Some e))"

section \<open>One attempt and its verdict\<close>

definition and_then :: "exn + 'a \<Rightarrow> ('a \<Rightarrow> exn + 'b) \<Rightarrow> exn + 'b" where
  "and_then r f = (case r of Inl e \<Rightarrow> Inl e | Inr x \<Rightarrow> f x)"

text \<open>
  \<^verbatim>\<open>if not result_content and assistant_text_parts: result_content =
  "\n\n".join(assistant_text_parts)\<close>
\<close>

definition fallback_result :: "run_state \<Rightarrow> exn + run_state" where
  "fallback_result st =
     (if \<not> truthy (result_content st) \<and> assistant_text_parts st \<noteq> [] then
        and_then (py_join [CHR 0x0A, CHR 0x0A] (assistant_text_parts st))
          (\<lambda>r. Inr (st\<lparr>result_content := r\<rparr>))
      else Inr st)"

text \<open>
  The decision sequence after the \<^verbatim>\<open>try\<close> statement (source lines 824-845 and 555-571),
  one function per \<^verbatim>\<open>if\<close>. \<^verbatim>\<open>if not error_kind\<close> holds exactly when \<^verbatim>\<open>error_kind\<close> is
  \<^verbatim>\<open>None\<close>, since no member of \<^verbatim>\<open>ErrorKind\<close> is the empty string.
\<close>

definition keep_kind :: "ErrorKind option \<Rightarrow> ErrorKind \<Rightarrow> ErrorKind option" where
  "keep_kind k new = (case k of None \<Rightarrow> Some new | Some old \<Rightarrow> Some old)"

definition check_had_error :: "run_state \<Rightarrow> run_state" where
  "check_had_error st = (if had_error st then st\<lparr>success := False\<rparr> else st)"

definition check_session :: "run_state \<Rightarrow> exn + run_state" where
  "check_session st =
     (if session_id st = JNull then
        and_then (str_add MSG_NO_SESSION (err_message st))
          (\<lambda>m. Inr (st\<lparr>success := False,
                        error_kind := keep_kind (error_kind st) PROTOCOL_MISSING_SESSION,
                        err_message := m\<rparr>))
      else Inr st)"

definition check_result :: "tool \<Rightarrow> run_state \<Rightarrow> exn + run_state" where
  "check_result t st =
     (if \<not> truthy (result_content st) \<and> success st then
        and_then (str_add (empty_result_message t) (err_message st))
          (\<lambda>m. Inr (st\<lparr>success := False,
                        error_kind := keep_kind (error_kind st) EMPTY_RESULT,
                        err_message := m\<rparr>))
      else Inr st)"

definition check_exit_code :: "run_state \<Rightarrow> exn + run_state" where
  "check_exit_code st =
     (case exit_code st of
        None \<Rightarrow> Inr st
      | Some code \<Rightarrow>
          (if code \<noteq> 0 \<and> success st then
             and_then (str_add (exit_code_message code) (err_message st))
               (\<lambda>m. Inr (st\<lparr>success := False,
                             error_kind := keep_kind (error_kind st) SUBPROCESS_ERROR,
                             err_message := m\<rparr>))
           else Inr st))"

definition classify :: "tool \<Rightarrow> run_state \<Rightarrow> exn + run_state" where
  "classify t st =
     and_then (and_then (check_session (check_had_error st)) (check_result t)) check_exit_code"

text \<open>The tool's parameters that the engine reads.\<close>

record params =
  return_all_messages :: bool
  return_metrics :: bool
  timeout :: int
  max_duration :: int
  max_retries :: int

text \<open>
  What entering \<^verbatim>\<open>safe_*_command\<close> meets: \<^verbatim>\<open>shutil.which\<close> finds no executable, \<^verbatim>\<open>Popen\<close>
  raises, or the child runs and the generator yields lines and ends.
\<close>

datatype child = Unresolved | SpawnFails | Streams "string list" gen_end

text \<open>The child that a script of observations amounts to, under the tool's two limits.\<close>

definition spawned :: "tool \<Rightarrow> params \<Rightarrow> child_script \<Rightarrow> child option" where
  "spawned t p sc =
     (case generator t (timeout p) (max_duration p) sc of
        None \<Rightarrow> None
      | Some (ls, fin) \<Rightarrow> Some (Streams ls fin))"

datatype attempt_exit =
    Propagated exn tool_state
  | NotFound string tool_state
  | TimedOut tool_state
  | Classified tool_state

definition info_of :: "run_state \<Rightarrow> error_info" where
  "info_of st =
     \<lparr> info_error_kind = error_kind st, info_err_message = err_message st,
       info_exit_code = exit_code st, info_json_decode_errors = json_decode_errors st,
       info_raw_output_lines = raw_output_lines st \<rparr>"

definition save_error :: "tool_state \<Rightarrow> tool_state" where
  "save_error s = s\<lparr>all_last_lines := last_lines (run s), last_error := Some (info_of (run s))\<rparr>"

text \<open>
  The \<^verbatim>\<open>except\<close> clauses of the outer \<^verbatim>\<open>try\<close>: \<^verbatim>\<open>CommandNotFoundError\<close> returns at once,
  \<^verbatim>\<open>CommandTimeoutError\<close> records the failure and leaves the retry loop with \<^verbatim>\<open>break\<close>, any
  other exception is not caught.
\<close>

definition timeout_kind :: "bool \<Rightarrow> ErrorKind" where
  "timeout_kind is_idle = (if is_idle then IDLE_TIMEOUT else TIMEOUT)"

definition on_exception :: "tool_state \<Rightarrow> exn \<Rightarrow> attempt_exit" where
  "on_exception s e =
     (case e of
        CommandNotFoundError m \<Rightarrow> NotFound m s
      | CommandTimeoutError m is_idle \<Rightarrow>
          TimedOut (save_error (s\<lparr>run := (run s)\<lparr>error_kind := Some (timeout_kind is_idle),
                                                   had_error := True, err_message := JStr m,
                                                   success := False\<rparr>\<rparr>))
      | _ \<Rightarrow> Propagated e s)"

text \<open>One iteration of the retry loop up to the verdict.\<close>

definition attempt :: "pylib \<Rightarrow> tool \<Rightarrow> params \<Rightarrow> child \<Rightarrow> tool_state \<Rightarrow> attempt_exit" where
  "attempt py t p ch s =
     (let s0 = (begin_attempt s)\<lparr>entered := entered s + 1\<rparr> in
      case ch of
        Unresolved \<Rightarrow> on_exception s0 (CommandNotFoundError (not_found_message t))
      | SpawnFails \<Rightarrow> on_exception s0 OSError
      | Streams ls fin \<Rightarrow>
          (case consume py t (return_all_messages p) (run s0) ls fin of
             (st, Some e) \<Rightarrow> on_exception (s0\<lparr>run := st\<rparr>) e
           | (st, None) \<Rightarrow>
               (case fallback_result st of
                  Inl e \<Rightarrow> on_exception (s0\<lparr>run := st\<rparr>) e
                | Inr st1 \<Rightarrow>
                    (case classify t st1 of
                       Inl e \<Rightarrow> Propagated e (s0\<lparr>run := st1\<rparr>)
                     | Inr st2 \<Rightarrow> Classified (s0\<lparr>run := st2\<rparr>)))))"

section \<open>The retry loop\<close>

text \<open>\<^verbatim>\<open>2 ** n\<close> for an \<^verbatim>\<open>int\<close> \<open>n\<close>, and the argument of \<^verbatim>\<open>time.sleep\<close>:
  \<^verbatim>\<open>0.5 * (2 ** (retries - 1))\<close>, evaluated after \<^verbatim>\<open>retries += 1\<close>.\<close>

definition pow2 :: "int \<Rightarrow> real" where
  "pow2 n = (if 0 \<le> n then 2 ^ nat n else 1 / 2 ^ nat (- n))"

definition backoff :: "int \<Rightarrow> real" where
  "backoff n_retries = 0.5 * pow2 (n_retries - 1)"

datatype loop_exit =
    LoopRaise exn tool_state
  | LoopReturn string tool_state
  | LoopDone tool_state

text \<open>
  \<^verbatim>\<open>while retries <= max_retries:\<close> with its body. The environment \<open>env\<close> gives, for each
  entry of \<^verbatim>\<open>safe_*_command\<close> (counted from 0), what that entry meets.
\<close>

function retry_loop ::
  "pylib \<Rightarrow> tool \<Rightarrow> params \<Rightarrow> (nat \<Rightarrow> child) \<Rightarrow> tool_state \<Rightarrow> loop_exit" where
  "retry_loop py t p env s =
     (if retries s \<le> max_retries p then
        (case attempt py t p (env (entered s)) s of
           Propagated e s' \<Rightarrow> LoopRaise e s'
         | NotFound m s' \<Rightarrow> LoopReturn m s'
         | TimedOut s' \<Rightarrow> LoopDone s'
         | Classified s' \<Rightarrow>
             (if success (run s') then LoopDone s'
              else if retries s' < max_retries p then
                retry_loop py t p env
                  ((save_error s')\<lparr>retries := retries s' + 1,
                                    slept := slept s' @ [backoff (retries s' + 1)]\<rparr>)
              else LoopDone (save_error s')))
      else LoopDone s)"
  by pat_completeness auto
termination
proof (relation "measure (\<lambda>(py, t, p, env, s). nat (max_retries p + 1 - retries s))")
  show "wf (measure (\<lambda>(py, t, p, env, s). nat (max_retries p + 1 - retries s)))"
    by simp
next
  fix py :: pylib and t :: tool and p :: params and env :: "nat \<Rightarrow> child"
    and s s' :: tool_state
  assume le: "retries s \<le> max_retries p"
    and at: "attempt py t p (env (entered s)) s = Classified s'"
    and lt: "retries s' < max_retries p"
  have "retries s' = retries s"
    using at
    by (auto simp: attempt_def Let_def begin_attempt_def on_exception_def
        split: child.splits prod.splits option.splits sum.splits exn.splits)
  with le lt show
    "((py, t, p, env, (save_error s')\<lparr>retries := retries s' + 1,
          slept := slept s' @ [backoff (retries s' + 1)]\<rparr>), (py, t, p, env, s))
      \<in> measure (\<lambda>(py, t, p, env, s). nat (max_retries p + 1 - retries s))"
    by (simp add: save_error_def)
qed

declare retry_loop.simps [simp del]

section \<open>Metrics and the returned value\<close>

text \<open>
  The fields of \<^verbatim>\<open>MetricsCollector\<close> that \<^verbatim>\<open>finish\<close> sets from the tool's variables. The
  timestamps are represented by their difference \<open>duration_ms\<close>, which the environment
  supplies; the fields computed from the prompt are left out.
\<close>

record metrics =
  duration_ms :: int
  metrics_success :: bool
  metrics_error_kind :: "ErrorKind option"
  metrics_retries :: int
  metrics_exit_code :: "int option"
  result_chars :: int
  result_lines :: int
  metrics_raw_output_lines :: int
  metrics_json_decode_errors :: int

text \<open>\<^verbatim>\<open>len(result)\<close> and \<^verbatim>\<open>result.count('\n') + 1 if result else 0\<close> on a decoded value.\<close>

definition py_len :: "pylib \<Rightarrow> json \<Rightarrow> exn + int" where
  "py_len py x =
     (case x of
        JStr s \<Rightarrow> Inr (int (length (chars py s)))
      | JList xs \<Rightarrow> Inr (int (length xs))
      | JObj kvs \<Rightarrow> Inr (int (length kvs))
      | _ \<Rightarrow> Inl TypeError)"

definition line_count :: "json \<Rightarrow> exn + int" where
  "line_count x =
     (if truthy x then
        (case x of
           JStr s \<Rightarrow> Inr (int (length (filter (\<lambda>c. c = CHR 0x0A) s)) + 1)
         | JList xs \<Rightarrow> Inr (int (length (filter (\<lambda>v. v = JStr [CHR 0x0A]) xs)) + 1)
         | _ \<Rightarrow> Inl AttributeError)
      else Inr 0)"

definition metrics_finish ::
  "pylib \<Rightarrow> int \<Rightarrow> bool \<Rightarrow> ErrorKind option \<Rightarrow> json \<Rightarrow> int option \<Rightarrow> int \<Rightarrow> int \<Rightarrow> int \<Rightarrow>
     exn + metrics" where
  "metrics_finish py clock ok kind res code raw decode_errors n_retries =
     and_then (py_len py res) (\<lambda>n_chars.
     and_then (line_count res) (\<lambda>n_lines.
       Inr \<lparr> duration_ms = clock, metrics_success = ok, metrics_error_kind = kind,
             metrics_retries = n_retries, metrics_exit_code = code, result_chars = n_chars,
             result_lines = n_lines, metrics_raw_output_lines = raw,
             metrics_json_decode_errors = decode_errors \<rparr>))"

definition format_duration :: "metrics \<Rightarrow> string" where
  "format_duration m =
     show_int ((duration_ms m div 1000) div 60) @ ''m'' @
     show_int ((duration_ms m div 1000) mod 60) @ ''s''"

text \<open>
  The dict a tool function returns. \<open>None\<close> in an optional field is a key the dict does not
  have; a failure dict always has the key \<^verbatim>\<open>error_kind\<close>, and \<open>out_error_kind = None\<close> there
  is the Python value \<^verbatim>\<open>None\<close>.
\<close>

record tool_result =
  out_success :: bool
  out_tool :: string
  out_error :: "json option"
  out_error_kind :: "ErrorKind option"
  out_error_detail :: "error_detail option"
  out_SESSION_ID :: "json option"
  out_result :: "json option"
  out_duration :: "string option"
  out_all_messages :: "json list option"
  out_metrics :: "metrics option"

text \<open>
  The early returns: \<^verbatim>\<open>config_error\<close> before the loop and \<^verbatim>\<open>command_not_found\<close> inside it.
  Both pass the whole message to \<^verbatim>\<open>_build_error_detail\<close> and set neither \<^verbatim>\<open>duration\<close> nor
  \<^verbatim>\<open>all_messages\<close>.
\<close>

definition early_failure ::
  "pylib \<Rightarrow> tool \<Rightarrow> params \<Rightarrow> int \<Rightarrow> ErrorKind \<Rightarrow> string \<Rightarrow> int \<Rightarrow> exn + tool_result" where
  "early_failure py t p clock kind msg n_retries =
     and_then (metrics_finish py clock False (Some kind) (JStr []) None 0 0 n_retries) (\<lambda>m.
     and_then (build_error_detail py t msg None None 0 None None 0) (\<lambda>d.
       Inr \<lparr> out_success = False, out_tool = tool_name t, out_error = Some (JStr msg),
             out_error_kind = Some kind, out_error_detail = Some d, out_SESSION_ID = None,
             out_result = None, out_duration = None, out_all_messages = None,
             out_metrics = (if return_metrics p then Some m else None) \<rparr>))"

text \<open>
  \<^verbatim>\<open>if last_error:\<close> the four variables are taken from \<^verbatim>\<open>last_error\<close> (a non-empty dict is
  truthy).
\<close>

definition final_error :: "tool_state \<Rightarrow> ErrorKind option \<times> json \<times> int option \<times> int" where
  "final_error s =
     (case last_error s of
        Some le \<Rightarrow>
          (info_error_kind le, info_err_message le, info_exit_code le, info_json_decode_errors le)
      | None \<Rightarrow>
          (error_kind (run s), err_message (run s), exit_code (run s),
           json_decode_errors (run s)))"

text \<open>\<^verbatim>\<open>err_message.split('\n')[0] if err_message else "..."\<close>\<close>

definition detail_message :: "json \<Rightarrow> exn + string" where
  "detail_message m =
     (if truthy m then (case m of JStr txt \<Rightarrow> Inr (first_line txt) | _ \<Rightarrow> Inl AttributeError)
      else Inr MSG_UNKNOWN)"

text \<open>
  The code after the retry loop. Reading \<^verbatim>\<open>success\<close> raises \<^verbatim>\<open>UnboundLocalError\<close> when the
  loop body never ran.
\<close>

definition finish :: "pylib \<Rightarrow> tool \<Rightarrow> params \<Rightarrow> int \<Rightarrow> tool_state \<Rightarrow> exn + tool_result" where
  "finish py t p clock s =
     (if \<not> bound s then Inl UnboundLocalError
      else
        and_then
          (metrics_finish py clock (success (run s)) (error_kind (run s))
             (result_content (run s)) (exit_code (run s)) (raw_output_lines (run s))
             (json_decode_errors (run s)) (retries s))
          (\<lambda>m.
             if success (run s) then
               Inr \<lparr> out_success = True, out_tool = tool_name t, out_error = None,
                     out_error_kind = None, out_error_detail = None,
                     out_SESSION_ID = Some (session_id (run s)),
                     out_result = Some (result_content (run s)),
                     out_duration = Some (format_duration m),
                     out_all_messages =
                       (if return_all_messages p then Some (all_messages (run s)) else None),
                     out_metrics = (if return_metrics p then Some m else None) \<rparr>
             else
               (case final_error s of
                  (kind, msg, code, decode_errors) \<Rightarrow>
                    and_then (detail_message msg) (\<lambda>first.
                    and_then
                      (build_error_detail py t first code (Some (all_last_lines s))
                         decode_errors
                         (if kind = Some IDLE_TIMEOUT then Some (timeout p) else None)
                         (if kind = Some TIMEOUT then Some (max_duration p) else None)
                         (retries s))
                      (\<lambda>d.
                         Inr \<lparr> out_success = False, out_tool = tool_name t,
                               out_error = Some msg, out_error_kind = kind,
                               out_error_detail = Some d, out_SESSION_ID = None,
                               out_result = None, out_duration = Some (format_duration m),
                               out_all_messages =
                                 (if return_all_messages p then Some (all_messages (run s))
                                  else None),
                               out_metrics =
                                 (if return_metrics p then Some m else None) \<rparr>)))))"

section \<open>The tool functions\<close>

text \<open>
  The environment of one call: whether \<^verbatim>\<open>get_config\<close> / \<^verbatim>\<open>build_*_env\<close> (module
  \<^verbatim>\<open>ccg_mcp.config\<close>, not among the sources) raise, with the text of the exception; what each
  entry of \<^verbatim>\<open>safe_*_command\<close> meets; and the duration the metrics collector measures.
\<close>

record world =
  config_failure :: "string option"
  children :: "nat \<Rightarrow> child"
  clock_ms :: int

text \<open>
  The value of a call is the returned dict or the exception that leaves the function,
  together with the final state (for the recorded effects).
\<close>

definition tool_fn ::
  "pylib \<Rightarrow> tool \<Rightarrow> params \<Rightarrow> world \<Rightarrow> (exn + tool_result) \<times> tool_state" where
  "tool_fn py t p w =
     (case config_failure w of
        Some e \<Rightarrow>
          (early_failure py t p (clock_ms w) CONFIG_ERROR (MSG_CONFIG_PREFIX @ e) 0,
           initial_state)
      | None \<Rightarrow>
          (case retry_loop py t p (children w) initial_state of
             LoopRaise e s \<Rightarrow> (Inl e, s)
           | LoopReturn m s \<Rightarrow>
               (early_failure py t p (clock_ms w) COMMAND_NOT_FOUND m (retries s), s)
           | LoopDone s \<Rightarrow> (finish py t p (clock_ms w) s, s)))"

definition coder_tool :: "pylib \<Rightarrow> params \<Rightarrow> world \<Rightarrow> (exn + tool_result) \<times> tool_state" where
  "coder_tool py = tool_fn py Coder"

definition claude_tool :: "pylib \<Rightarrow> params \<Rightarrow> world \<Rightarrow> (exn + tool_result) \<times> tool_state" where
  "claude_tool py = tool_fn py Claude"

section \<open>Sample inputs\<close>

text \<open>
  Concrete lines of the \<^verbatim>\<open>stream-json\<close> protocol with the values \<^verbatim>\<open>json.loads\<close> decodes them
  to, and an instance of the library parameters that is right on these lines: they carry no
  surrounding white space (so \<^verbatim>\<open>strip\<close> returns them unchanged) and are ASCII (so every byte
  is a character). They serve to evaluate the model at concrete inputs.
\<close>

definition dq :: "string \<Rightarrow> string" where
  "dq s = CHR 0x22 # s @ [CHR 0x22]"

definition sq :: "string \<Rightarrow> string" where
  "sq s = CHR 0x27 # s @ [CHR 0x27]"

definition LINE_INIT :: string where
  "LINE_INIT =
     ''{'' @ dq ''type'' @ '':'' @ dq ''system'' @ '','' @ dq ''subtype'' @ '':'' @
       dq ''init'' @ '','' @ dq ''session_id'' @ '':'' @ dq ''abc'' @ ''}''"

definition LINE_INIT_VALUE :: json where
  "LINE_INIT_VALUE =
     JObj [(''type'', JStr ''system''), (''subtype'', JStr ''init''),
       (''session_id'', JStr ''abc'')]"

definition LINE_RESULT :: string where
  "LINE_RESULT =
     ''{'' @ dq ''type'' @ '':'' @ dq ''result'' @ '','' @ dq ''result'' @ '':'' @
       dq ''done'' @ ''}''"

definition LINE_RESULT_VALUE :: json where
  "LINE_RESULT_VALUE =
     JObj [(''type'', JStr ''result''), (''result'', JStr ''done'')]"

definition LINE_ERROR :: string where
  "LINE_ERROR =
     ''{'' @ dq ''type'' @ '':'' @ dq ''error'' @ '','' @ dq ''error'' @ '':{'' @
       dq ''message'' @ '':'' @ dq ''boom'' @ ''}}''"

definition LINE_ERROR_VALUE :: json where
  "LINE_ERROR_VALUE =
     JObj [(''type'', JStr ''error''), (''error'', JObj [(''message'', JStr ''boom'')])]"

definition LINE_LIST :: string where
  "LINE_LIST =
     ''[1]''"

definition LINE_LIST_VALUE :: json where
  "LINE_LIST_VALUE =
     JList [JInt 1]"

definition LINE_USER :: string where
  "LINE_USER =
     ''{'' @ dq ''type'' @ '':'' @ dq ''user'' @ '','' @ dq ''message'' @ '':{'' @
       dq ''role'' @ '':'' @ dq ''user'' @ '','' @ dq ''content'' @ '':[{'' @ dq ''type'' @
       '':'' @ dq ''tool_result'' @ '','' @ dq ''tool_use_id'' @ '':'' @ dq ''t1'' @ '','' @
       dq ''content'' @ '':'' @ dq ''secret'' @ ''},{'' @ dq ''type'' @ '':'' @ dq ''text'' @
       '','' @ dq ''text'' @ '':'' @ dq ''hi'' @ ''}]}}''"

definition LINE_USER_VALUE :: json where
  "LINE_USER_VALUE =
     JObj [(''type'', JStr ''user''), (''message'', JObj [(''role'', JStr ''user''),
       (''content'', JList [JObj [(''type'', JStr ''tool_result''),
       (''tool_use_id'', JStr ''t1''),
       (''content'', JStr ''secret'')], JObj [(''type'', JStr ''text''),
       (''text'', JStr ''hi'')]])])]"

definition LINE_USER_EMPTY :: string where
  "LINE_USER_EMPTY =
     ''{'' @ dq ''type'' @ '':'' @ dq ''user'' @ '','' @ dq ''message'' @ '':{'' @
       dq ''content'' @ '':[]}}''"

definition LINE_USER_EMPTY_VALUE :: json where
  "LINE_USER_EMPTY_VALUE =
     JObj [(''type'', JStr ''user''), (''message'', JObj [(''content'', JList [])])]"

definition LINE_USER_REDACTED :: json where
  "LINE_USER_REDACTED =
     JObj [(''type'', JStr ''user''), (''message'', JObj [(''role'', JStr ''user''),
       (''content'', JList [JObj [(''type'', JStr ''tool_result''),
       (''tool_use_id'', JStr ''t1''),
       (''content'', JStr ''[truncated]'')], JObj [(''type'', JStr ''text''),
       (''text'', JStr ''hi'')]])])]"

definition LINE_USER_DUMPED :: string where
  "LINE_USER_DUMPED =
     ''{'' @ dq ''type'' @ '': '' @ dq ''user'' @ '', '' @ dq ''message'' @ '': {'' @
       dq ''role'' @ '': '' @ dq ''user'' @ '', '' @ dq ''content'' @ '': [{'' @ dq ''type'' @
       '': '' @ dq ''tool_result'' @ '', '' @ dq ''tool_use_id'' @ '': '' @ dq ''t1'' @
       '', '' @ dq ''content'' @ '': '' @ dq ''[truncated]'' @ ''}, {'' @ dq ''type'' @
       '': '' @ dq ''text'' @ '', '' @ dq ''text'' @ '': '' @ dq ''hi'' @ ''}]}}''"

definition LINE_USER_EMPTY_REDACTED :: json where
  "LINE_USER_EMPTY_REDACTED =
     JObj [(''type'', JStr ''user''), (''message'', JObj [(''content'', JList [])])]"

definition LINE_USER_EMPTY_DUMPED :: string where
  "LINE_USER_EMPTY_DUMPED =
     ''{'' @ dq ''type'' @ '': '' @ dq ''user'' @ '', '' @ dq ''message'' @ '': {'' @
       dq ''content'' @ '': []}}''"

definition sample_loads :: "string \<Rightarrow> exn + json" where
  "sample_loads l =
     (if l = LINE_INIT then Inr LINE_INIT_VALUE
      else if l = LINE_RESULT then Inr LINE_RESULT_VALUE
      else if l = LINE_ERROR then Inr LINE_ERROR_VALUE
      else if l = LINE_LIST then Inr LINE_LIST_VALUE
      else if l = LINE_USER then Inr LINE_USER_VALUE
      else if l = LINE_USER_EMPTY then Inr LINE_USER_EMPTY_VALUE
      else Inl JSONDecodeError)"

definition sample_dumps :: "json \<Rightarrow> string" where
  "sample_dumps v =
     (if v = LINE_USER_REDACTED then LINE_USER_DUMPED
      else if v = LINE_USER_EMPTY_REDACTED then LINE_USER_EMPTY_DUMPED
      else [])"

definition sample_str_exn :: "exn \<Rightarrow> string" where
  "sample_str_exn e =
     (if e = AttributeError then sq ''list'' @ '' object has no attribute '' @ sq ''get''
      else [])"

definition sample_str_json :: "json \<Rightarrow> string" where
  "sample_str_json v =
     (if v = LINE_ERROR_VALUE
      then ''{'' @ sq ''type'' @ '': '' @ sq ''error'' @ '', '' @ sq ''error'' @ '': {'' @
           sq ''message'' @ '': '' @ sq ''boom'' @ ''}}''
      else [])"

definition sample_py :: pylib where
  "sample_py =
     \<lparr> loads = sample_loads, dumps = sample_dumps, strip = (\<lambda>s. s),
       str_json = sample_str_json,
       str_exn = sample_str_exn, repr_str = sq, chars = map (\<lambda>c. [c]) \<rparr>"

definition sample_params :: "int \<Rightarrow> params" where
  "sample_params n =
     \<lparr> return_all_messages = False, return_metrics = False, timeout = 300,
       max_duration = 1800, max_retries = n \<rparr>"

definition sample_world :: "(nat \<Rightarrow> child) \<Rightarrow> world" where
  "sample_world env = \<lparr> config_failure = None, children = env, clock_ms = 61500 \<rparr>"

text \<open>Environments for the retry loop: the same child at every entry, or one child at the
  first entry and another at every later one.\<close>

definition always :: "child \<Rightarrow> nat \<Rightarrow> child" where
  "always c k = c"

definition first_then :: "child \<Rightarrow> child \<Rightarrow> nat \<Rightarrow> child" where
  "first_then a b k = (if k = 0 then a else b)"

text \<open>A child that ends without a line and exit code 0, and children whose generator raises the
  idle or the duration timeout before any line.\<close>

definition silent_child :: child where
  "silent_child = Streams [] (GenReturn (Some 0) 0)"

definition idle_child :: child where
  "idle_child = Streams [] (GenTimeout (idle_timeout_message Coder 300) True)"

definition duration_child :: child where
  "duration_child = Streams [] (GenTimeout (duration_timeout_message Coder 1800) False)"

text \<open>Children that yield sample lines and then end with exit code 0.\<close>

definition list_child :: child where
  "list_child = Streams [LINE_LIST] (GenReturn (Some 0) 1)"

definition error_child :: child where
  "error_child = Streams [LINE_ERROR] (GenReturn (Some 0) 1)"

definition result_child :: child where
  "result_child = Streams [LINE_RESULT] (GenReturn (Some 0) 1)"

definition answer_child :: child where
  "answer_child = Streams [LINE_INIT, LINE_RESULT] (GenReturn (Some 0) 2)"

text \<open>A state as an earlier failed attempt leaves it at the top of the loop.\<close>

definition resumed_state :: tool_state where
  "resumed_state =
     initial_state\<lparr>retries := 1, all_last_lines := [LINE_ERROR], bound := True,
        run := initial_run\<lparr>session_id := JStr ''old'', had_error := True,
                 error_kind := Some UPSTREAM_ERROR\<rparr>\<rparr>"

section \<open>Notions used in the statements\<close>

text \<open>The state an attempt leaves behind, and the state a retry loop ends in.\<close>

fun exit_state :: "attempt_exit \<Rightarrow> tool_state" where
  "exit_state (Propagated e s) = s"
| "exit_state (NotFound m s) = s"
| "exit_state (TimedOut s) = s"
| "exit_state (Classified s) = s"

fun final_state :: "loop_exit \<Rightarrow> tool_state" where
  "final_state (LoopRaise e s) = s"
| "final_state (LoopReturn m s) = s"
| "final_state (LoopDone s) = s"

text \<open>The state in which \<^verbatim>\<open>except CommandTimeoutError\<close> leaves the retry loop.\<close>

definition timed_out_state :: "tool_state \<Rightarrow> run_state \<Rightarrow> string \<Rightarrow> bool \<Rightarrow> tool_state" where
  "timed_out_state s st m is_idle =
     save_error ((begin_attempt s)\<lparr>entered := entered s + 1,
        run := st\<lparr>error_kind := Some (timeout_kind is_idle), had_error := True,
                  err_message := JStr m, success := False\<rparr>\<rparr>)"

text \<open>The nine error kinds of the specification (all members of \<^verbatim>\<open>ErrorKind\<close> but
  \<^verbatim>\<open>json_decode\<close>), and the kinds that interpreting a line can set.\<close>

definition listed_kinds :: "ErrorKind set" where
  "listed_kinds =
     {TIMEOUT, IDLE_TIMEOUT, COMMAND_NOT_FOUND, UPSTREAM_ERROR, PROTOCOL_MISSING_SESSION,
      EMPTY_RESULT, SUBPROCESS_ERROR, CONFIG_ERROR, UNEXPECTED_EXCEPTION}"

definition line_kinds :: "ErrorKind option set" where
  "line_kinds = {None, Some UPSTREAM_ERROR, Some UNEXPECTED_EXCEPTION}"

text \<open>
  What holds of the per-attempt variables while lines are interpreted (\<open>line_inv\<close>), and of
  the whole state at the top of the loop and at its end: a recorded failure has a listed kind
  (\<open>settled\<close>); retry count, entries and sleeps agree (\<open>paced\<close>, with \<open>backoffs n\<close> the
  first \<open>n\<close> backoff intervals).
\<close>

definition line_inv :: "run_state \<Rightarrow> bool" where
  "line_inv st = (success st \<and> error_kind st \<in> line_kinds
     \<and> (had_error st \<longrightarrow> error_kind st \<noteq> None))"

definition settled :: "tool_state \<Rightarrow> bool" where
  "settled s =
     (bound s \<and> \<not> success (run s) \<longrightarrow>
        (\<exists>le k. last_error s = Some le \<and> info_error_kind le = Some k \<and> k \<in> listed_kinds))"

definition backoffs :: "nat \<Rightarrow> real list" where
  "backoffs n = map (\<lambda>k. 0.5 * 2 ^ k) [0..<n]"

definition paced :: "tool_state \<Rightarrow> bool" where
  "paced s = (0 \<le> retries s \<and> entered s = nat (retries s)
     \<and> slept s = backoffs (nat (retries s)))"

text \<open>
  The verdict of an attempt: the exception that leaves the tool function, or the success
  flag, error kind, result text and error message the attempt ends with.
\<close>

definition verdict :: "attempt_exit \<Rightarrow> exn + bool \<times> ErrorKind option \<times> json \<times> json" where
  "verdict x =
     (case x of
        Propagated e s \<Rightarrow> Inl e
      | NotFound m s \<Rightarrow> Inr (False, Some COMMAND_NOT_FOUND, result_content (run s), JStr m)
      | TimedOut s \<Rightarrow>
          Inr (success (run s), error_kind (run s), result_content (run s), err_message (run s))
      | Classified s \<Rightarrow>
          Inr (success (run s), error_kind (run s), result_content (run s), err_message (run s)))"

text \<open>
  The error message a failure outcome is built from after the retry loop (the value of
  \<^verbatim>\<open>err_message\<close> after \<^verbatim>\<open>if last_error:\<close>), and the state in which \<^verbatim>\<open>coder_tool\<close> leaves the
  loop for a child without output and \<^verbatim>\<open>max_retries = 0\<close>.
\<close>

definition final_message :: "tool_state \<Rightarrow> json" where
  "final_message s = fst (snd (final_error s))"

definition silent_end :: tool_state where
  "silent_end =
     final_state (retry_loop sample_py Coder (sample_params 0) (always silent_child) initial_state)"

text \<open>
  For the redaction filter: a decoded line that is a \<^verbatim>\<open>"user"\<close> message whose content is a
  list; two dicts with the same keys in the same order and the same values except possibly
  at one key; a block and its redacted form; a decoded message and its redacted form.
\<close>

definition user_with_list :: "json \<Rightarrow> bool" where
  "user_with_list d =
     (case d of
        JObj kvs \<Rightarrow>
          dict_get kvs ''type'' (JStr []) = JStr ''user'' \<and>
          (case dict_get kvs ''message'' (JObj []) of
             JObj m \<Rightarrow> (case dict_get m ''content'' JNull of JList blocks \<Rightarrow> True | _ \<Rightarrow> False)
           | _ \<Rightarrow> False)
      | _ \<Rightarrow> False)"

definition same_but :: "string \<Rightarrow> (string \<times> json) list \<Rightarrow> (string \<times> json) list \<Rightarrow> bool" where
  "same_but k a b = (map fst b = map fst a \<and> (\<forall>j. j \<noteq> k \<longrightarrow> map_of b j = map_of a j))"

definition block_redacted :: "json \<Rightarrow> json \<Rightarrow> bool" where
  "block_redacted b b' =
     (case b of
        JObj kvs \<Rightarrow>
          (if map_of kvs ''type'' = Some (JStr ''tool_result'')
           then (\<exists>kvs'. b' = JObj kvs' \<and> map_of kvs' ''content'' = Some (JStr TRUNCATED)
                   \<and> (\<forall>j. j \<noteq> ''content'' \<longrightarrow> map_of kvs' j = map_of kvs j))
           else b' = b)
      | _ \<Rightarrow> b' = b)"

definition message_redacted :: "json \<Rightarrow> json \<Rightarrow> bool" where
  "message_redacted d d' =
     (\<exists>kvs m blocks kvs' m' blocks'.
        d = JObj kvs \<and> d' = JObj kvs' \<and> same_but ''message'' kvs kvs'
        \<and> map_of kvs ''message'' = Some (JObj m) \<and> map_of kvs' ''message'' = Some (JObj m')
        \<and> same_but ''content'' m m'
        \<and> map_of m ''content'' = Some (JList blocks)
        \<and> map_of m' ''content'' = Some (JList blocks')
        \<and> list_all2 block_redacted blocks blocks')"

section \<open>Shared lemmas\<close>

lemma run_begin_attempt: "run (begin_attempt s) = initial_run"
  by (simp add: begin_attempt_def initial_run_def)

lemma early_failure_returns:
  "\<exists>r d. early_failure py t p clock kind msg n = Inr r \<and> \<not> out_success r
     \<and> out_error_kind r = Some kind \<and> out_error r = Some (JStr msg)
     \<and> out_error_detail r = Some d \<and> message d = msg"
  by (simp add: early_failure_def metrics_finish_def and_then_def py_len_def line_count_def
      build_error_detail_def)

lemma attempt_unresolved:
  "attempt py t p Unresolved s =
     NotFound (not_found_message t) ((begin_attempt s)\<lparr>entered := entered s + 1\<rparr>)"
  by (simp add: attempt_def on_exception_def)

lemma retry_loop_unresolved:
  assumes "retries s \<le> max_retries p" and "env (entered s) = Unresolved"
  shows "retry_loop py t p env s =
     LoopReturn (not_found_message t) ((begin_attempt s)\<lparr>entered := entered s + 1\<rparr>)"
  using assms by (subst retry_loop.simps) (simp add: attempt_unresolved)

lemma begin_attempt_carried:
  "retries (begin_attempt s) = retries s" "slept (begin_attempt s) = slept s"
  "entered (begin_attempt s) = entered s" "last_error (begin_attempt s) = last_error s"
  "all_last_lines (begin_attempt s) = all_last_lines s" "bound (begin_attempt s)"
  by (simp_all add: begin_attempt_def)

lemma attempt_timeout:
  assumes "consume py t (return_all_messages p) initial_run ls fin =
             (st, Some (CommandTimeoutError m is_idle))"
  shows "attempt py t p (Streams ls fin) s = TimedOut (timed_out_state s st m is_idle)"
  using assms
  by (simp add: attempt_def Let_def run_begin_attempt on_exception_def timed_out_state_def)

lemma finish_failure:
  assumes "finish py t p clock s = Inr r" and "\<not> success (run s)"
  shows "\<not> out_success r \<and> out_error_kind r = fst (final_error s)
     \<and> out_error r = Some (fst (snd (final_error s)))"
  using assms
  by (auto simp: finish_def and_then_def split: if_splits sum.splits prod.splits)

lemma line_inv_initial: "line_inv initial_run"
  by (simp add: line_inv_def initial_run_def line_kinds_def)

lemma collect_message_frame:
  assumes "collect_message ra st kvs mt = (st', x)"
  shows "success st' = success st \<and> had_error st' = had_error st
     \<and> error_kind st' = error_kind st"
  using assms
  by (auto simp: collect_message_def split: if_splits sum.splits option.splits)

lemma dispatch_ok:
  assumes "dispatch py st kvs mt = (st', None)" and "line_inv st"
  shows "line_inv st'"
  using assms
  by (auto simp: dispatch_def line_inv_def line_kinds_def Let_def
      split: if_splits json.splits)

lemma dispatch_raise:
  assumes "dispatch py st kvs mt = (st', Some e)" and "line_inv st"
  shows "e = AttributeError \<and> success st' \<and> error_kind st' \<in> line_kinds"
  using assms
  by (auto simp: dispatch_def line_inv_def line_kinds_def Let_def
      split: if_splits json.splits)

lemma on_decoded_ok:
  assumes "on_decoded py ra st d = (st', None)" and "line_inv st"
  shows "line_inv st'"
proof (cases d)
  case (JObj kvs)
  obtain st1 x where c: "collect_message ra st kvs (dict_get kvs ''type'' (JStr [])) = (st1, x)"
    by (cases "collect_message ra st kvs (dict_get kvs ''type'' (JStr []))")
  with assms(1) JObj have x: "x = None"
    and d: "dispatch py st1 kvs (dict_get kvs ''type'' (JStr [])) = (st', None)"
    by (auto simp: on_decoded_def split: option.splits)
  from collect_message_frame [OF c] assms(2) have "line_inv st1"
    by (simp add: line_inv_def)
  with d show ?thesis by (rule dispatch_ok)
qed (use assms in \<open>auto simp: on_decoded_def\<close>)

lemma on_decoded_raise:
  assumes "on_decoded py ra st d = (st', Some e)" and "line_inv st"
  shows "e = AttributeError \<and> success st' \<and> error_kind st' \<in> line_kinds"
proof (cases d)
  case (JObj kvs)
  obtain st1 x where c: "collect_message ra st kvs (dict_get kvs ''type'' (JStr [])) = (st1, x)"
    by (cases "collect_message ra st kvs (dict_get kvs ''type'' (JStr []))")
  from collect_message_frame [OF c] assms(2) have inv1: "line_inv st1"
    by (simp add: line_inv_def)
  show ?thesis
  proof (cases x)
    case None
    with assms(1) JObj c
    have "dispatch py st1 kvs (dict_get kvs ''type'' (JStr [])) = (st', Some e)"
      by (simp add: on_decoded_def)
    then show ?thesis using inv1 by (rule dispatch_raise)
  next
    case (Some e')
    with assms(1) JObj c have "st' = st1" "e = e'"
      by (simp_all add: on_decoded_def)
    moreover from c Some have "e' = AttributeError"
      by (auto simp: collect_message_def redacted_message_def
          split: if_splits sum.splits option.splits json.splits)
    ultimately show ?thesis using inv1 by (simp add: line_inv_def)
  qed
qed (use assms in \<open>auto simp: on_decoded_def line_inv_def\<close>)

lemma handle_exception_inv:
  assumes "handle_exception py t st e line = Continue st' \<or>
           handle_exception py t st e line = Break st'"
    and "success st" and "error_kind st \<in> line_kinds"
    and "e = JSONDecodeError \<longrightarrow> line_inv st"
  shows "line_inv st'"
  using assms
  by (auto simp: handle_exception_def line_inv_def line_kinds_def
      split: if_splits tool.splits sum.splits)

lemma process_line_inv:
  assumes "process_line py t ra st l = Continue st' \<or> process_line py t ra st l = Break st'"
    and "line_inv st"
  shows "line_inv st'"
proof -
  let ?st0 = "st\<lparr>last_lines := push_line (last_lines st) l\<rparr>"
  have inv0: "line_inv ?st0"
    using assms(2) by (simp add: line_inv_def)
  show ?thesis
  proof (cases "loads py (strip py l)")
    case (Inl e)
    with assms(1) have "handle_exception py t ?st0 e l = Continue st' \<or>
        handle_exception py t ?st0 e l = Break st'"
      by (simp add: process_line_def)
    moreover have "success ?st0" "error_kind ?st0 \<in> line_kinds"
      using inv0 by (simp_all add: line_inv_def)
    ultimately show ?thesis
      using inv0 by (intro handle_exception_inv [of py t ?st0 e l st']) simp_all
  next
    case (Inr d)
    obtain st1 x where od: "on_decoded py ra ?st0 d = (st1, x)"
      by (cases "on_decoded py ra ?st0 d")
    show ?thesis
    proof (cases x)
      case None
      with assms(1) Inr od have "st' = st1"
        by (simp add: process_line_def)
      with od None inv0 show ?thesis
        using on_decoded_ok by blast
    next
      case (Some e)
      with assms(1) Inr od have h: "handle_exception py t st1 e l = Continue st' \<or>
          handle_exception py t st1 e l = Break st'"
        by (simp add: process_line_def)
      from on_decoded_raise [OF od [unfolded Some] inv0]
      have "e = AttributeError" "success st1" "error_kind st1 \<in> line_kinds"
        by simp_all
      with h show ?thesis
        by (intro handle_exception_inv [of py t st1 e l st']) simp_all
    qed
  qed
qed

lemma consume_inv:
  assumes "consume py t ra st ls fin = (st', None)" and "line_inv st"
  shows "line_inv st'"
  using assms
proof (induction ls arbitrary: st)
  case Nil
  then show ?case by (cases fin) simp_all
next
  case (Cons l ls)
  show ?case
  proof (cases "process_line py t ra st l")
    case (Continue st1)
    with Cons.prems have "consume py t ra st1 ls fin = (st', None)" by simp
    moreover have "line_inv st1"
      using Continue Cons.prems(2) process_line_inv by blast
    ultimately show ?thesis by (rule Cons.IH)
  next
    case (Break st1)
    with Cons.prems have "st' = st1" by simp
    then show ?thesis
      using Break Cons.prems(2) process_line_inv by blast
  next
    case (Raise st1 e)
    with Cons.prems show ?thesis by simp
  qed
qed

lemma fallback_result_inv:
  assumes "fallback_result st = Inr st'" and "line_inv st"
  shows "line_inv st'"
  using assms
  by (auto simp: fallback_result_def and_then_def line_inv_def split: if_splits sum.splits)

lemma keep_kind_listed:
  assumes "k \<in> line_kinds" and "new \<in> listed_kinds"
  shows "\<exists>k'. keep_kind k new = Some k' \<and> k' \<in> listed_kinds"
  using assms by (auto simp: keep_kind_def line_kinds_def listed_kinds_def)

lemma classify_kind:
  assumes "classify t st = Inr st'" and "line_inv st" and "\<not> success st'"
  shows "\<exists>k. error_kind st' = Some k \<and> k \<in> listed_kinds"
  using assms
  by (auto simp: classify_def and_then_def check_had_error_def check_session_def
      check_result_def check_exit_code_def line_inv_def line_kinds_def listed_kinds_def
      keep_kind_def str_add_def
      split: if_splits sum.splits option.splits json.splits)

lemma on_exception_frame:
  "retries (exit_state (on_exception s e)) = retries s
   \<and> slept (exit_state (on_exception s e)) = slept s
   \<and> entered (exit_state (on_exception s e)) = entered s
   \<and> bound (exit_state (on_exception s e)) = bound s"
  by (simp add: on_exception_def save_error_def split: exn.splits)

lemma attempt_frame:
  "retries (exit_state (attempt py t p ch s)) = retries s
   \<and> slept (exit_state (attempt py t p ch s)) = slept s
   \<and> entered (exit_state (attempt py t p ch s)) = entered s + 1
   \<and> bound (exit_state (attempt py t p ch s))"
proof (cases ch)
  case Unresolved
  then show ?thesis
    by (simp add: attempt_def Let_def on_exception_frame begin_attempt_carried)
next
  case SpawnFails
  then show ?thesis
    by (simp add: attempt_def Let_def on_exception_frame begin_attempt_carried)
next
  case (Streams ls fin)
  then show ?thesis
    by (simp add: attempt_def Let_def on_exception_frame begin_attempt_carried
        split: prod.splits option.splits sum.splits)
qed

lemma attempt_classified_kind:
  assumes "attempt py t p ch s = Classified s'" and "\<not> success (run s')"
  shows "\<exists>k. error_kind (run s') = Some k \<and> k \<in> listed_kinds"
proof (cases ch)
  case (Streams ls fin)
  obtain st x where c: "consume py t (return_all_messages p) initial_run ls fin = (st, x)"
    by (cases "consume py t (return_all_messages p) initial_run ls fin")
  show ?thesis
  proof (cases x)
    case None
    have inv: "line_inv st"
      using c [unfolded None] line_inv_initial by (rule consume_inv)
    from assms(1) Streams c None obtain st1 st2
      where f: "fallback_result st = Inr st1" and cl: "classify t st1 = Inr st2"
        and s': "run s' = st2"
      by (auto simp: attempt_def Let_def run_begin_attempt on_exception_def
          split: sum.splits exn.splits)
    from f inv have "line_inv st1" by (rule fallback_result_inv)
    with cl show ?thesis
      using assms(2) s' classify_kind by blast
  next
    case (Some e)
    with assms(1) Streams c show ?thesis
      by (auto simp: attempt_def Let_def run_begin_attempt on_exception_def split: exn.splits)
  qed
qed (use assms in \<open>auto simp: attempt_def Let_def on_exception_def\<close>)

lemma attempt_timed_out_kind:
  assumes "attempt py t p ch s = TimedOut s'"
  shows "\<not> success (run s') \<and>
    (\<exists>le k. last_error s' = Some le \<and> info_error_kind le = Some k \<and> k \<in> listed_kinds)"
  using assms
  by (auto simp: attempt_def Let_def on_exception_def save_error_def info_of_def
      timeout_kind_def listed_kinds_def
      split: child.splits prod.splits option.splits sum.splits exn.splits)

lemma settled_initial: "settled initial_state"
  by (simp add: settled_def initial_state_def)

lemma retry_loop_settled:
  assumes "retry_loop py t p env s = LoopDone s'" and "settled s"
  shows "settled s'"
  using assms
proof (induction py t p env s rule: retry_loop.induct)
  case (1 py t p env s)
  show ?case
  proof (cases "retries s \<le> max_retries p")
    case False
    with "1.prems" show ?thesis
      by (subst (asm) retry_loop.simps) simp
  next
    case True
    show ?thesis
    proof (cases "attempt py t p (env (entered s)) s")
      case (Propagated e s1)
      with "1.prems" True show ?thesis by (subst (asm) retry_loop.simps) simp
    next
      case (NotFound m s1)
      with "1.prems" True show ?thesis by (subst (asm) retry_loop.simps) simp
    next
      case (TimedOut s1)
      with "1.prems"(1) True have "s' = s1" by (subst (asm) retry_loop.simps) simp
      with attempt_timed_out_kind [OF TimedOut] show ?thesis
        by (simp add: settled_def)
    next
      case (Classified s1)
      show ?thesis
      proof (cases "success (run s1)")
        case ok: True
        with "1.prems"(1) True Classified have "s' = s1"
          by (subst (asm) retry_loop.simps) simp
        with ok show ?thesis by (simp add: settled_def)
      next
        case failed: False
        from attempt_classified_kind [OF Classified failed]
        have saved: "settled (save_error s1)"
          by (auto simp: settled_def save_error_def info_of_def)
        show ?thesis
        proof (cases "retries s1 < max_retries p")
          case more: True
          let ?next = "(save_error s1)\<lparr>retries := retries s1 + 1,
              slept := slept s1 @ [backoff (retries s1 + 1)]\<rparr>"
          from "1.prems"(1) True Classified failed more
          have "retry_loop py t p env ?next = LoopDone s'"
            by (subst (asm) retry_loop.simps) simp
          moreover from saved have "settled ?next"
            by (simp add: settled_def save_error_def)
          ultimately show ?thesis
            using "1.IH" [OF True Classified failed more] by blast
        next
          case False
          with "1.prems"(1) True Classified failed have "s' = save_error s1"
            by (subst (asm) retry_loop.simps) simp
          with saved show ?thesis by simp
        qed
      qed
    qed
  qed
qed

lemma retry_loop_bound:
  assumes "retry_loop py t p env s = LoopDone s'" and "bound s'"
  shows "bound s \<or> retries s \<le> max_retries p"
  using assms by (subst (asm) retry_loop.simps) (auto split: if_splits)

lemma backoff_nonneg: "0 \<le> r \<Longrightarrow> backoff (r + 1) = 0.5 * 2 ^ nat r"
  by (simp add: backoff_def pow2_def)

lemma backoffs_Suc: "backoffs (Suc n) = backoffs n @ [0.5 * 2 ^ n]"
  by (simp add: backoffs_def)

lemma paced_initial: "paced initial_state"
  by (simp add: paced_def initial_state_def backoffs_def)

lemma retry_loop_step:
  assumes "retries s < max_retries p"
    and "attempt py t p (env (entered s)) s = Classified s1" and "\<not> success (run s1)"
  shows "retry_loop py t p env s =
     retry_loop py t p env
       ((save_error s1)\<lparr>retries := retries s + 1,
                         slept := slept s @ [backoff (retries s + 1)]\<rparr>)"
proof -
  have "retries s1 = retries s" "slept s1 = slept s"
    using attempt_frame [of py t p "env (entered s)" s] assms(2) by simp_all
  with assms show ?thesis
    by (subst retry_loop.simps) simp
qed

lemma retry_loop_stop:
  assumes "retries s = max_retries p"
    and "attempt py t p (env (entered s)) s = Classified s1" and "\<not> success (run s1)"
  shows "retry_loop py t p env s = LoopDone (save_error s1)"
proof -
  have "retries s1 = retries s"
    using attempt_frame [of py t p "env (entered s)" s] assms(2) by simp
  with assms show ?thesis
    by (subst retry_loop.simps) simp
qed

lemma retry_loop_paced:
  assumes "paced s"
  shows "slept (final_state (retry_loop py t p env s))
           = backoffs (nat (retries (final_state (retry_loop py t p env s))))
       \<and> (if retries s \<le> max_retries p
          then retries (final_state (retry_loop py t p env s)) \<le> max_retries p
             \<and> entered (final_state (retry_loop py t p env s))
                 = nat (retries (final_state (retry_loop py t p env s))) + 1
          else final_state (retry_loop py t p env s) = s)"
  using assms
proof (induction py t p env s rule: retry_loop.induct)
  case (1 py t p env s)
  let ?a = "attempt py t p (env (entered s)) s"
  have frame: "retries (exit_state ?a) = retries s" "slept (exit_state ?a) = slept s"
    "entered (exit_state ?a) = entered s + 1"
    using attempt_frame [of py t p "env (entered s)" s] by simp_all
  show ?case
  proof (cases "retries s \<le> max_retries p")
    case False
    then have "retry_loop py t p env s = LoopDone s"
      by (subst retry_loop.simps) simp
    with False "1.prems" show ?thesis by (simp add: paced_def)
  next
    case True
    show ?thesis
    proof (cases ?a)
      case (Propagated e s1)
      with True have "retry_loop py t p env s = LoopRaise e s1"
        by (subst retry_loop.simps) simp
      with True frame Propagated "1.prems" show ?thesis by (simp add: paced_def)
    next
      case (NotFound m s1)
      with True have "retry_loop py t p env s = LoopReturn m s1"
        by (subst retry_loop.simps) simp
      with True frame NotFound "1.prems" show ?thesis by (simp add: paced_def)
    next
      case (TimedOut s1)
      with True have "retry_loop py t p env s = LoopDone s1"
        by (subst retry_loop.simps) simp
      with True frame TimedOut "1.prems" show ?thesis by (simp add: paced_def)
    next
      case (Classified s1)
      show ?thesis
      proof (cases "success (run s1)")
        case ok: True
        with True Classified have "retry_loop py t p env s = LoopDone s1"
          by (subst retry_loop.simps) simp
        with True frame Classified "1.prems" show ?thesis by (simp add: paced_def)
      next
        case failed: False
        show ?thesis
        proof (cases "retries s1 < max_retries p")
          case more: True
          let ?next = "(save_error s1)\<lparr>retries := retries s1 + 1,
              slept := slept s1 @ [backoff (retries s1 + 1)]\<rparr>"
          have eq: "retry_loop py t p env s = retry_loop py t p env ?next"
            using True Classified failed more by (subst retry_loop.simps) simp
          have "paced ?next"
            using "1.prems" frame Classified
            by (simp add: paced_def save_error_def backoff_nonneg backoffs_Suc nat_add_distrib)
          from "1.IH" [OF True Classified failed more this] more frame Classified
          show ?thesis
            by (simp add: eq save_error_def)
        next
          case False
          with True Classified failed have "retry_loop py t p env s = LoopDone (save_error s1)"
            by (subst retry_loop.simps) simp
          with True frame Classified "1.prems" show ?thesis
            by (simp add: paced_def save_error_def)
        qed
      qed
    qed
  qed
qed

lemma tool_fn_state:
  "snd (tool_fn py t p w) =
     (case config_failure w of
        Some e \<Rightarrow> initial_state
      | None \<Rightarrow> final_state (retry_loop py t p (children w) initial_state))"
  by (simp add: tool_fn_def split: option.splits loop_exit.splits)

lemma verdict_on_exception:
  "run s1 = run s2 \<Longrightarrow> verdict (on_exception s1 e) = verdict (on_exception s2 e)"
  by (simp add: on_exception_def verdict_def save_error_def split: exn.splits)

lemma build_error_detail_message:
  "build_error_detail py t msg code shown decode_errors idle_s max_s n = Inr d \<Longrightarrow> message d = msg"
  by (auto simp: build_error_detail_def split: option.splits if_splits sum.splits)

lemma finish_failure_detail:
  assumes "finish py t p clock s = Inr r" and "\<not> out_success r"
  shows "out_error r = Some (final_message s)
     \<and> (\<exists>d. out_error_detail r = Some d \<and> detail_message (final_message s) = Inr (message d))"
proof -
  from assms have failed: "\<not> success (run s)"
    by (auto simp: finish_def and_then_def split: if_splits sum.splits)
  obtain kind msg code decode_errors where fe: "final_error s = (kind, msg, code, decode_errors)"
    by (cases "final_error s")
  from assms(1) failed fe obtain line1 d
    where "detail_message msg = Inr line1"
      and "build_error_detail py t line1 code (Some (all_last_lines s)) decode_errors
             (if kind = Some IDLE_TIMEOUT then Some (timeout p) else None)
             (if kind = Some TIMEOUT then Some (max_duration p) else None) (retries s) = Inr d"
      and "out_error r = Some msg" and "out_error_detail r = Some d"
    by (auto simp: finish_def and_then_def split: if_splits sum.splits)
  with fe build_error_detail_message show ?thesis
    by (fastforce simp: final_message_def)
qed

lemma dict_get_tag:
  "(dict_get kvs k JNull = JStr v) = (map_of kvs k = Some (JStr v))"
  by (simp add: dict_get_def split: option.splits)

lemma redact_block_redacted: "block_redacted b (redact_block b)"
  by (cases b)
    (simp_all add: block_redacted_def redact_block_def dict_get_tag update_conv')

lemma same_but_update:
  assumes "map_of a k = Some v"
  shows "same_but k a (AList.update k v' a)"
proof -
  from assms have "k \<in> set (map fst a)"
    by (metis map_of_eq_None_iff option.distinct(1) set_map)
  then show ?thesis
    by (simp add: same_but_def update_keys update_conv')
qed

lemma redacted_message_spec:
  assumes "redacted_message kvs = Inr (Some d')"
  shows "message_redacted (JObj kvs) d'"
proof -
  from assms obtain m blocks
    where m: "dict_get kvs ''message'' (JObj []) = JObj m"
      and c: "dict_get m ''content'' JNull = JList blocks"
      and d': "d' = JObj (AList.update ''message''
                (JObj (AList.update ''content'' (JList (map redact_block blocks)) m)) kvs)"
    by (auto simp: redacted_message_def split: json.splits)
  from c have mc: "map_of m ''content'' = Some (JList blocks)"
    by (simp add: dict_get_def split: option.splits)
  with m have km: "map_of kvs ''message'' = Some (JObj m)"
    by (auto simp: dict_get_def split: option.splits)
  have "list_all2 block_redacted blocks (map redact_block blocks)"
    by (simp add: list_all2_conv_all_nth redact_block_redacted)
  with km mc d' show ?thesis
    unfolding message_redacted_def
    by (auto simp: update_conv' intro!: same_but_update)
qed

lemma user_with_list_redacted:
  "user_with_list (JObj kvs) =
     (dict_get kvs ''type'' (JStr []) = JStr ''user'' \<and> (\<exists>d'. redacted_message kvs = Inr (Some d')))"
  by (auto simp: user_with_list_def redacted_message_def split: json.splits)

lemma filter_line_user:
  assumes "loads py l = Inr d" and "user_with_list d"
  shows "\<exists>d'. filter_line py l = Inr (dumps py d') \<and> message_redacted d d'"
proof -
  from assms(2) obtain kvs where d: "d = JObj kvs"
    by (cases d) (simp_all add: user_with_list_def)
  with assms(2) obtain d' where u: "dict_get kvs ''type'' (JStr []) = JStr ''user''"
    and r: "redacted_message kvs = Inr (Some d')"
    by (auto simp: user_with_list_redacted)
  from assms(1) d u r have "filter_line py l = Inr (dumps py d')"
    by (simp add: filter_line_def)
  with redacted_message_spec [OF r] d show ?thesis by blast
qed

lemma filter_line_other:
  assumes "loads py l = Inr d" and "\<not> user_with_list d"
  shows "filter_line py l = Inr l"
proof (cases d)
  case (JObj kvs)
  with assms show ?thesis
    by (auto simp: filter_line_def user_with_list_redacted split: sum.splits option.splits)
qed (use assms in \<open>simp_all add: filter_line_def\<close>)

lemma filter_lines_nth:
  assumes "filter_lines py ls = Inr fl"
  shows "length fl = length ls \<and> (\<forall>i < length ls. filter_line py (ls ! i) = Inr (fl ! i))"
  using assms
proof (induction ls arbitrary: fl)
  case Nil
  then show ?case by simp
next
  case (Cons l ls)
  from Cons.prems obtain l' fl' where l': "filter_line py l = Inr l'"
    and fl': "filter_lines py ls = Inr fl'" and fl: "fl = l' # fl'"
    by (auto split: sum.splits)
  from Cons.IH [OF fl'] l' fl show ?case
    by (auto simp: nth_Cons split: nat.splits)
qed

lemma classify_session:
  "classify t st = Inr st' \<Longrightarrow> session_id st' = session_id st"
  by (auto simp: classify_def and_then_def check_had_error_def check_session_def
      check_result_def check_exit_code_def
      split: if_splits sum.splits option.splits)

lemma classify_missing_session:
  assumes "session_id st = JNull" and "err_message st = JStr m"
  shows "\<exists>st'. classify t st = Inr st' \<and> \<not> success st'
           \<and> error_kind st' =
               (case error_kind st of None \<Rightarrow> Some PROTOCOL_MISSING_SESSION | Some k \<Rightarrow> Some k)
           \<and> err_message st' = JStr (MSG_NO_SESSION @ m)
           \<and> result_content st' = result_content st"
  using assms
  by (simp add: classify_def and_then_def check_had_error_def check_session_def
      check_result_def check_exit_code_def keep_kind_def str_add_def
      split: option.splits)

lemma classify_needs_text:
  assumes "classify t st = Inr st'" and "session_id st = JNull"
  shows "\<exists>m. err_message st = JStr m"
proof -
  from assms(1) obtain st1 where "check_session (check_had_error st) = Inr st1"
    by (auto simp: classify_def and_then_def split: sum.splits)
  moreover have "session_id (check_had_error st) = JNull"
    "err_message (check_had_error st) = err_message st"
    using assms(2) by (simp_all add: check_had_error_def)
  ultimately show ?thesis
    by (cases "err_message st") (simp_all add: check_session_def and_then_def str_add_def)
qed

lemma attempt_classified_run:
  assumes "attempt py t p ch s = Classified s'"
  shows "\<exists>st. line_inv st \<and> classify t st = Inr (run s')"
proof (cases ch)
  case (Streams ls fin)
  obtain st x where c: "consume py t (return_all_messages p) initial_run ls fin = (st, x)"
    by (cases "consume py t (return_all_messages p) initial_run ls fin")
  show ?thesis
  proof (cases x)
    case None
    have inv: "line_inv st"
      using c [unfolded None] line_inv_initial by (rule consume_inv)
    from assms Streams c None obtain st1 st2
      where f: "fallback_result st = Inr st1" and cl: "classify t st1 = Inr st2"
        and s': "run s' = st2"
      by (auto simp: attempt_def Let_def run_begin_attempt on_exception_def
          split: sum.splits exn.splits)
    from f inv have "line_inv st1" by (rule fallback_result_inv)
    with cl s' show ?thesis by blast
  next
    case (Some e)
    with assms Streams c show ?thesis
      by (auto simp: attempt_def Let_def run_begin_attempt on_exception_def split: exn.splits)
  qed
qed (use assms in \<open>auto simp: attempt_def Let_def on_exception_def\<close>)

text \<open>The definitions that the evaluation of a tool function at a concrete input unfolds.\<close>

lemmas run_defs =
  coder_tool_def claude_tool_def tool_fn_def retry_loop.simps attempt_def begin_attempt_def
  on_exception_def save_error_def info_of_def timeout_kind_def finish_def metrics_finish_def
  and_then_def py_len_def line_count_def final_error_def detail_message_def
  build_error_detail_def early_failure_def initial_state_def initial_run_def
  fallback_result_def classify_def check_had_error_def check_session_def check_result_def
  check_exit_code_def keep_kind_def str_add_def backoff_def pow2_def

lemmas sample_defs =
  sample_py_def sample_params_def sample_world_def always_def first_then_def silent_child_def
  idle_child_def duration_child_def

lemmas line_defs =
  process_line_def on_decoded_def collect_message_def dispatch_def
  handle_exception_def push_line_def dict_get_def has_key_def py_or_def iadd_str_def
  unexpected_text_def block_text_def redacted_message_def redact_block_def py_join_def

lemmas sample_line_defs =
  sample_loads_def sample_dumps_def sample_str_exn_def dq_def sq_def
  LINE_INIT_def LINE_INIT_VALUE_def LINE_RESULT_def LINE_RESULT_VALUE_def LINE_ERROR_def
  LINE_ERROR_VALUE_def LINE_LIST_def LINE_LIST_VALUE_def LINE_USER_def LINE_USER_VALUE_def
  LINE_USER_EMPTY_def LINE_USER_EMPTY_VALUE_def LINE_USER_REDACTED_def LINE_USER_DUMPED_def
  LINE_USER_EMPTY_REDACTED_def LINE_USER_EMPTY_DUMPED_def

section \<open>Timeouts and the retry budget (C1)\<close>

text \<open>
  C1 states that a timed-out attempt is retried with backoff like any other failure while
  \<^verbatim>\<open>attempt < max_retries\<close>. The source does the opposite by design: the clause
  \<^verbatim>\<open>except CommandTimeoutError\<close> ends with \<^verbatim>\<open>break\<close> (its comment says that timeouts are not
  retried). For \<^verbatim>\<open>coder_tool\<close> with \<^verbatim>\<open>max_retries = 1\<close> and a child that hits the idle
  timeout, one attempt is made, nothing is slept, and the outcome has kind \<^verbatim>\<open>idle_timeout\<close>
  although the retry count 0 is below \<^verbatim>\<open>max_retries\<close>.
\<close>

theorem C1_timeout_is_retried_counterexample:
  "entered (snd (coder_tool sample_py (sample_params 1) (sample_world (always idle_child)))) = 1
   \<and> slept (snd (coder_tool sample_py (sample_params 1) (sample_world (always idle_child)))) = []
   \<and> retries (snd (coder_tool sample_py (sample_params 1) (sample_world (always idle_child))))
       < max_retries (sample_params 1)
   \<and> map_sum id out_error_kind
        (fst (coder_tool sample_py (sample_params 1) (sample_world (always idle_child))))
       = Inr (Some IDLE_TIMEOUT)"
  by (simp add: run_defs sample_defs)

text \<open>
  C1, amended. An attempt whose generator raises the duration or idle timeout (after the
  lines it yielded were interpreted without a \<^verbatim>\<open>break\<close> or an exception) ends the retry loop
  at once, whatever \<^verbatim>\<open>max_retries\<close> is: no sleep, no further attempt, the retry count
  unchanged; the attempt is a failure of kind \<^verbatim>\<open>timeout\<close> or \<^verbatim>\<open>idle_timeout\<close>, and that is the
  kind and the message of the outcome the tool function builds from it.
\<close>

theorem C1_timeout_ends_the_retry_loop:
  assumes "retries s \<le> max_retries p"
    and "env (entered s) = Streams ls fin"
    and "consume py t (return_all_messages p) initial_run ls fin =
           (st, Some (CommandTimeoutError m is_idle))"
  shows "\<exists>s'. retry_loop py t p env s = LoopDone s'
           \<and> entered s' = entered s + 1 \<and> slept s' = slept s \<and> retries s' = retries s
           \<and> \<not> success (run s') \<and> error_kind (run s') = Some (timeout_kind is_idle)
           \<and> (\<forall>clock r. finish py t p clock s' = Inr r \<longrightarrow>
                  \<not> out_success r \<and> out_error_kind r = Some (timeout_kind is_idle)
                  \<and> out_error r = Some (JStr m))"
proof -
  let ?s' = "timed_out_state s st m is_idle"
  have "attempt py t p (env (entered s)) s = TimedOut ?s'"
    using assms(2,3) by (simp add: attempt_timeout)
  then have loop: "retry_loop py t p env s = LoopDone ?s'"
    using assms(1) by (subst retry_loop.simps) simp
  have st: "entered ?s' = entered s + 1" "slept ?s' = slept s" "retries ?s' = retries s"
    "\<not> success (run ?s')" "error_kind (run ?s') = Some (timeout_kind is_idle)"
    by (simp_all add: timed_out_state_def save_error_def begin_attempt_carried)
  have fe: "final_error ?s' = (Some (timeout_kind is_idle), JStr m, exit_code st,
      json_decode_errors st)"
    by (simp add: timed_out_state_def save_error_def final_error_def info_of_def)
  have "\<not> out_success r \<and> out_error_kind r = Some (timeout_kind is_idle)
      \<and> out_error r = Some (JStr m)" if "finish py t p clock ?s' = Inr r" for clock r
    using finish_failure [OF that st(4)] by (simp add: fe)
  with loop st show ?thesis by blast
qed

text \<open>The theorem for a child that hits the idle timeout, with \<^verbatim>\<open>max_retries = 1\<close>.\<close>

theorem C1_timeout_ends_the_retry_loop_witness:
  "\<exists>s'. retry_loop sample_py Coder (sample_params 1) (always idle_child) initial_state
           = LoopDone s'
       \<and> entered s' = 1 \<and> slept s' = [] \<and> retries s' = 0
       \<and> error_kind (run s') = Some IDLE_TIMEOUT"
  using C1_timeout_ends_the_retry_loop [of initial_state "sample_params 1" "always idle_child"
      "[]" "GenTimeout (idle_timeout_message Coder 300) True" sample_py Coder initial_run
      "idle_timeout_message Coder 300" True]
  by (auto simp: initial_state_def sample_params_def always_def idle_child_def timeout_kind_def)

section \<open>Exceptions while a line is interpreted (C2)\<close>

text \<open>
  C2 states that every exception raised while an output line is interpreted (other than a
  decode failure) is caught and turned into a failure outcome of kind
  \<^verbatim>\<open>unexpected_exception\<close>, and that the tool function never raises. \<^verbatim>\<open>coder.py\<close> has the
  handler that does this (\<^verbatim>\<open>except Exception as error\<close>, lines 773-777); the line loop of
  \<^verbatim>\<open>claude.py\<close> (lines 472-517) has only \<^verbatim>\<open>except json.JSONDecodeError\<close>. For a child whose
  one output line is \<^verbatim>\<open>[1]\<close> (JSON, but not an object), \<^verbatim>\<open>line_dict.get\<close> raises
  \<^verbatim>\<open>AttributeError\<close>: \<^verbatim>\<open>claude_tool\<close> lets it reach its caller, \<^verbatim>\<open>coder_tool\<close> returns the
  failure outcome of kind \<^verbatim>\<open>unexpected_exception\<close>.
\<close>

theorem C2_claude_tool_raises:
  "fst (claude_tool sample_py (sample_params 0) (sample_world (always list_child)))
     = Inl AttributeError
   \<and> map_sum id out_error_kind
       (fst (coder_tool sample_py (sample_params 0) (sample_world (always list_child))))
     = Inr (Some UNEXPECTED_EXCEPTION)"
  by (simp add: run_defs sample_defs line_defs sample_line_defs list_child_def
      MSG_NO_SESSION_def first_line_def filter_last_lines_def filter_line_def slice_last_def)

section \<open>The two error message fields (C3)\<close>

text \<open>
  C3 states that the top-level \<^verbatim>\<open>error\<close> field holds only the first line of the accumulated
  message and that the full message is nested in the error detail. The source has it the
  other way round: \<^verbatim>\<open>"error": err_message\<close> and
  \<^verbatim>\<open>message=err_message.split('\n')[0]\<close>. For \<^verbatim>\<open>coder_tool\<close> and a child without output the
  top-level field is the session diagnostic with its two trailing newlines, and the nested
  message is its first line.
\<close>

theorem C3_top_level_error_is_first_line_counterexample:
  "map_sum id out_error
      (fst (coder_tool sample_py (sample_params 0) (sample_world (always silent_child))))
     = Inr (Some (JStr MSG_NO_SESSION))
   \<and> map_sum id (map_option message \<circ> out_error_detail)
      (fst (coder_tool sample_py (sample_params 0) (sample_world (always silent_child))))
     = Inr (Some (first_line MSG_NO_SESSION))
   \<and> CHR 0x0A \<in> set MSG_NO_SESSION
   \<and> CHR 0x0A \<notin> set (first_line MSG_NO_SESSION)"
  by (simp add: run_defs sample_defs MSG_NO_SESSION_def first_line_def)

text \<open>
  C3, amended. In every failure outcome built after the retry loop the top-level \<^verbatim>\<open>error\<close>
  field is the full accumulated error message, and the nested \<^verbatim>\<open>error_detail.message\<close> is
  only its first line (a fixed text when the message is empty or another falsy value). The
  \<^verbatim>\<open>config_error\<close> and \<^verbatim>\<open>command_not_found\<close> outcomes carry the whole message in both fields.
\<close>

theorem C3_error_message_fields:
  "(finish py t p clock s = Inr r \<and> \<not> out_success r \<longrightarrow>
      out_error r = Some (final_message s)
      \<and> (\<exists>d. out_error_detail r = Some d
            \<and> (\<forall>txt. final_message s = JStr txt \<longrightarrow>
                  message d = (if txt = [] then MSG_UNKNOWN else first_line txt))
            \<and> (\<not> truthy (final_message s) \<longrightarrow> message d = MSG_UNKNOWN)))
   \<and> (early_failure py t p clock kind msg n = Inr r' \<longrightarrow>
        out_error r' = Some (JStr msg)
        \<and> (\<exists>d. out_error_detail r' = Some d \<and> message d = msg))"
proof -
  have "out_error r = Some (final_message s)
      \<and> (\<exists>d. out_error_detail r = Some d
            \<and> (\<forall>txt. final_message s = JStr txt \<longrightarrow>
                  message d = (if txt = [] then MSG_UNKNOWN else first_line txt))
            \<and> (\<not> truthy (final_message s) \<longrightarrow> message d = MSG_UNKNOWN))"
    if "finish py t p clock s = Inr r" "\<not> out_success r"
    using finish_failure_detail [OF that]
    by (auto simp: detail_message_def split: if_splits)
  moreover have "out_error r' = Some (JStr msg)
        \<and> (\<exists>d. out_error_detail r' = Some d \<and> message d = msg)"
    if "early_failure py t p clock kind msg n = Inr r'"
    using early_failure_returns [of py t p clock kind msg n] that by auto
  ultimately show ?thesis by blast
qed

text \<open>The theorem for the outcome of \<^verbatim>\<open>coder_tool\<close> on a child without output.\<close>

theorem C3_error_message_fields_witness:
  "\<exists>r d. finish sample_py Coder (sample_params 0) 61500 silent_end = Inr r
      \<and> \<not> out_success r
      \<and> out_error r = Some (JStr MSG_NO_SESSION)
      \<and> out_error_detail r = Some d
      \<and> message d = first_line MSG_NO_SESSION"
proof -
  have fm: "final_message silent_end = JStr MSG_NO_SESSION"
    by (simp add: silent_end_def final_message_def run_defs sample_defs)
  obtain r where r: "finish sample_py Coder (sample_params 0) 61500 silent_end = Inr r"
    and f: "\<not> out_success r"
    by (simp add: silent_end_def run_defs sample_defs MSG_NO_SESSION_def)
  have "MSG_NO_SESSION \<noteq> []"
    by (simp add: MSG_NO_SESSION_def)
  with C3_error_message_fields [of sample_py Coder "sample_params 0" 61500 silent_end r] r f fm
  show ?thesis by auto
qed

section \<open>Precedence of the duration ceiling (C4)\<close>

text \<open>
  C4. In a poll cycle of the supervisor loop in which \<^verbatim>\<open>max_duration > 0\<close>, the time since the
  start has reached \<^verbatim>\<open>max_duration\<close> and the time since the last activity has reached the
  idle timeout, the duration check comes first: the cycle leaves the loop with the duration
  \<^verbatim>\<open>CommandTimeoutError\<close> (\<^verbatim>\<open>is_idle=False\<close>), whatever the queue holds, and the tool's
  \<^verbatim>\<open>except CommandTimeoutError\<close> clause records the error kind \<^verbatim>\<open>timeout\<close>, not
  \<^verbatim>\<open>idle_timeout\<close>.
\<close>

theorem C4_duration_timeout_takes_precedence:
  assumes "0 < max_d"
    and "real_of_int max_d \<le> now - t_start"
    and "real_of_int idle \<le> now - t_last"
  shows "check_timeouts t idle max_d t_start t_last now =
           Some (duration_timeout_message t max_d, False)
       \<and> poll_loop t idle max_d t_start t_last (Poll now q touched # ps) =
           Some ([], Some (duration_timeout_message t max_d, False))
       \<and> (\<forall>s. \<exists>s'. on_exception s (CommandTimeoutError (duration_timeout_message t max_d) False)
                      = TimedOut s'
                  \<and> error_kind (run s') = Some TIMEOUT
                  \<and> error_kind (run s') \<noteq> Some IDLE_TIMEOUT
                  \<and> map_option info_error_kind (last_error s') = Some (Some TIMEOUT))"
proof -
  have c: "check_timeouts t idle max_d t_start t_last now =
           Some (duration_timeout_message t max_d, False)"
    using assms by (simp add: check_timeouts_def)
  then have "poll_loop t idle max_d t_start t_last (Poll now q touched # ps) =
           Some ([], Some (duration_timeout_message t max_d, False))"
    by simp
  moreover have "\<exists>s'. on_exception s (CommandTimeoutError (duration_timeout_message t max_d) False)
                      = TimedOut s'
                  \<and> error_kind (run s') = Some TIMEOUT
                  \<and> error_kind (run s') \<noteq> Some IDLE_TIMEOUT
                  \<and> map_option info_error_kind (last_error s') = Some (Some TIMEOUT)" for s
    by (simp add: on_exception_def save_error_def timeout_kind_def info_of_def)
  ultimately show ?thesis using c by blast
qed

text \<open>
  The theorem at idle limit 2, duration limit 3 and a clock reading of 5 with both clocks
  started at 0, where a line is waiting in the queue: the generator of that child raises the
  duration timeout. With the duration limit switched off (0) the same cycle ends in the idle
  timeout.
\<close>

theorem C4_duration_timeout_takes_precedence_witness:
  "check_timeouts Coder 2 3 0 0 5 = Some (duration_timeout_message Coder 3, False)
   \<and> generator Coder 2 3
       \<lparr> start_reading = 0, first_activity_reading = 0, polls = [Poll 5 (QLine ''x'') 5],
         wait_result = Some 0, residue = [], raw_count = 1 \<rparr>
     = Some ([], GenTimeout (duration_timeout_message Coder 3) False)
   \<and> check_timeouts Coder 2 0 0 0 5 = Some (idle_timeout_message Coder 2, True)"
proof -
  have "check_timeouts Coder 2 0 0 0 5 = Some (idle_timeout_message Coder 2, True)"
    by (simp add: check_timeouts_def)
  then show ?thesis
    using C4_duration_timeout_takes_precedence [of 3 5 0 2 0 Coder "QLine ''x''" 5 "[]"]
    by (simp add: generator_def)
qed

section \<open>An unresolvable executable (C5)\<close>

text \<open>
  C5. When the executable cannot be resolved (\<^verbatim>\<open>shutil.which\<close> finds nothing at the entry
  of \<^verbatim>\<open>safe_*_command\<close>), the tool function returns at once the failure outcome of kind
  \<^verbatim>\<open>command_not_found\<close>: the command was entered once, nothing was slept and the retry count
  is still 0, for every \<^verbatim>\<open>max_retries \<ge> 0\<close> (with a negative \<^verbatim>\<open>max_retries\<close> the command is
  never entered and no resolution is attempted). The second part is the same fact for a
  failed resolution at any entry of the retry loop: the loop returns at once, without a
  sleep or a further entry.
\<close>

theorem C5_command_not_found_is_not_retried:
  "(config_failure w = None \<and> 0 \<le> max_retries p \<and> children w 0 = Unresolved \<longrightarrow>
      (\<exists>r s. tool_fn py t p w = (Inr r, s) \<and> \<not> out_success r
         \<and> out_error_kind r = Some COMMAND_NOT_FOUND
         \<and> out_error r = Some (JStr (not_found_message t))
         \<and> entered s = 1 \<and> slept s = [] \<and> retries s = 0))
   \<and> (retries s0 \<le> max_retries p \<and> env (entered s0) = Unresolved \<longrightarrow>
        (\<exists>s'. retry_loop py t p env s0 = LoopReturn (not_found_message t) s'
           \<and> entered s' = entered s0 + 1 \<and> slept s' = slept s0 \<and> retries s' = retries s0))"
proof -
  have "\<exists>r s. tool_fn py t p w = (Inr r, s) \<and> \<not> out_success r
         \<and> out_error_kind r = Some COMMAND_NOT_FOUND
         \<and> out_error r = Some (JStr (not_found_message t))
         \<and> entered s = 1 \<and> slept s = [] \<and> retries s = 0"
    if cfg: "config_failure w = None" and nonneg: "0 \<le> max_retries p"
      and first: "children w 0 = Unresolved"
  proof -
    let ?s = "(begin_attempt initial_state)\<lparr>entered := entered initial_state + 1\<rparr>"
    have loop: "retry_loop py t p (children w) initial_state =
        LoopReturn (not_found_message t) ?s"
      using nonneg first by (intro retry_loop_unresolved) (simp_all add: initial_state_def)
    obtain r where r: "early_failure py t p (clock_ms w) COMMAND_NOT_FOUND
          (not_found_message t) (retries ?s) = Inr r"
        "\<not> out_success r" "out_error_kind r = Some COMMAND_NOT_FOUND"
        "out_error r = Some (JStr (not_found_message t))"
      using early_failure_returns by blast
    have "tool_fn py t p w = (Inr r, ?s)"
      using cfg loop r(1) by (simp add: tool_fn_def)
    moreover have "entered ?s = 1" "slept ?s = []" "retries ?s = 0"
      by (simp_all add: begin_attempt_carried initial_state_def)
    ultimately show ?thesis using r by blast
  qed
  moreover have "\<exists>s'. retry_loop py t p env s0 = LoopReturn (not_found_message t) s'
           \<and> entered s' = entered s0 + 1 \<and> slept s' = slept s0 \<and> retries s' = retries s0"
    if "retries s0 \<le> max_retries p" "env (entered s0) = Unresolved"
    using retry_loop_unresolved [of s0 p env py t] that by (simp add: begin_attempt_carried)
  ultimately show ?thesis by blast
qed

text \<open>
  The theorem for \<^verbatim>\<open>coder_tool\<close> with \<^verbatim>\<open>max_retries = 3\<close>, and for the retry loop entered
  with retry count 1 after a failed attempt.
\<close>

theorem C5_command_not_found_is_not_retried_witness:
  "(\<exists>r s. coder_tool sample_py (sample_params 3) (sample_world (always Unresolved)) = (Inr r, s)
      \<and> \<not> out_success r \<and> out_error_kind r = Some COMMAND_NOT_FOUND
      \<and> out_error r = Some (JStr (not_found_message Coder))
      \<and> entered s = 1 \<and> slept s = [] \<and> retries s = 0)
   \<and> (\<exists>s'. retry_loop sample_py Coder (sample_params 3) (always Unresolved) resumed_state
             = LoopReturn (not_found_message Coder) s'
          \<and> entered s' = 1 \<and> slept s' = [] \<and> retries s' = 1)"
  using C5_command_not_found_is_not_retried
    [of "sample_world (always Unresolved)" "sample_params 3" sample_py Coder resumed_state
      "always Unresolved"]
  by (simp add: coder_tool_def sample_world_def sample_params_def always_def resumed_state_def
      initial_state_def)

section \<open>A missing session identifier (C6)\<close>

text \<open>
  C6 states that whenever no session identifier is observed the outcome is a failure of
  kind \<^verbatim>\<open>protocol_missing_session\<close>. The classifier sets that kind only under
  \<^verbatim>\<open>if not error_kind\<close>: for \<^verbatim>\<open>coder_tool\<close> and a child whose one line is an \<^verbatim>\<open>"error"\<close>
  message, no session identifier is observed and the outcome has kind \<^verbatim>\<open>upstream_error\<close>.
\<close>

theorem C6_missing_session_kind_counterexample:
  "session_id (run (snd (coder_tool sample_py (sample_params 0)
      (sample_world (always error_child))))) = JNull
   \<and> map_sum id out_error_kind (fst (coder_tool sample_py (sample_params 0)
      (sample_world (always error_child)))) = Inr (Some UPSTREAM_ERROR)"
  by (simp add: run_defs sample_defs line_defs sample_line_defs error_child_def
      MSG_NO_SESSION_def first_line_def filter_last_lines_def filter_line_def slice_last_def)

text \<open>
  C6, amended. When no session identifier was observed, the classifier's verdict is a
  failure, whatever result text the lines carried, and the fixed diagnostic is put in front
  of the error message; the error kind is \<^verbatim>\<open>protocol_missing_session\<close> unless a line had
  already set a kind (\<^verbatim>\<open>upstream_error\<close> or \<^verbatim>\<open>unexpected_exception\<close>), which is kept. The
  second part is the same fact for an attempt of the tool over any child.
\<close>

theorem C6_missing_session_forces_failure:
  "(session_id st = JNull \<and> err_message st = JStr m \<longrightarrow>
      (\<exists>st'. classify t st = Inr st' \<and> \<not> success st'
         \<and> error_kind st' =
             (case error_kind st of None \<Rightarrow> Some PROTOCOL_MISSING_SESSION | Some k \<Rightarrow> Some k)
         \<and> err_message st' = JStr (MSG_NO_SESSION @ m)
         \<and> result_content st' = result_content st))
   \<and> (attempt py t p ch s = Classified s' \<and> session_id (run s') = JNull \<longrightarrow>
        \<not> success (run s')
        \<and> (error_kind (run s') = Some PROTOCOL_MISSING_SESSION
           \<or> error_kind (run s') = Some UPSTREAM_ERROR
           \<or> error_kind (run s') = Some UNEXPECTED_EXCEPTION)
        \<and> (\<exists>m'. err_message (run s') = JStr (MSG_NO_SESSION @ m')))"
proof -
  have "\<not> success (run s')
        \<and> (error_kind (run s') = Some PROTOCOL_MISSING_SESSION
           \<or> error_kind (run s') = Some UPSTREAM_ERROR
           \<or> error_kind (run s') = Some UNEXPECTED_EXCEPTION)
        \<and> (\<exists>m'. err_message (run s') = JStr (MSG_NO_SESSION @ m'))"
    if a: "attempt py t p ch s = Classified s'" and n: "session_id (run s') = JNull"
  proof -
    from attempt_classified_run [OF a] obtain st1
      where inv: "line_inv st1" and cl: "classify t st1 = Inr (run s')"
      by blast
    from classify_session [OF cl] n have n1: "session_id st1 = JNull" by simp
    from classify_needs_text [OF cl n1] obtain m1 where m1: "err_message st1 = JStr m1"
      by blast
    from classify_missing_session [OF n1 m1, of t] cl inv show ?thesis
      by (auto simp: line_inv_def line_kinds_def split: option.splits)
  qed
  then show ?thesis
    using classify_missing_session by blast
qed

text \<open>
  The theorem for a state with result text and no session identifier, and for the attempt
  of \<^verbatim>\<open>coder_tool\<close> over a child whose one line is a \<^verbatim>\<open>"result"\<close> message with text.
\<close>

theorem C6_missing_session_forces_failure_witness:
  "(\<exists>st'. classify Coder (initial_run\<lparr>result_content := JStr ''done''\<rparr>) = Inr st'
      \<and> \<not> success st' \<and> error_kind st' = Some PROTOCOL_MISSING_SESSION
      \<and> err_message st' = JStr MSG_NO_SESSION \<and> result_content st' = JStr ''done'')
   \<and> result_content (run (exit_state (attempt sample_py Coder (sample_params 0) result_child
        initial_state))) = JStr ''done''
   \<and> \<not> success (run (exit_state (attempt sample_py Coder (sample_params 0) result_child
        initial_state)))"
proof -
  let ?x = "exit_state (attempt sample_py Coder (sample_params 0) result_child initial_state)"
  have a: "attempt sample_py Coder (sample_params 0) result_child initial_state = Classified ?x"
    by (simp add: run_defs sample_defs line_defs sample_line_defs result_child_def)
  have b: "session_id (run ?x) = JNull" "result_content (run ?x) = JStr ''done''"
    by (simp_all add: run_defs sample_defs line_defs sample_line_defs result_child_def)
  show ?thesis
    using a b
      C6_missing_session_forces_failure
        [of "initial_run\<lparr>result_content := JStr ''done''\<rparr>" "[]" Coder sample_py
          "sample_params 0" result_child initial_state ?x]
    by (simp add: initial_run_def)
qed

section \<open>The redaction filter (C7)\<close>

text \<open>
  C7 states that around the replaced contents a redacted line is byte-identical to the
  original. The filter does not edit the line: it decodes it, replaces the contents in the
  decoded value and serialises the value again with \<^verbatim>\<open>json.dumps\<close>. For a compact
  \<^verbatim>\<open>"user"\<close> line whose content list is empty nothing is replaced, and yet the line that
  comes out differs from the line that went in: the ninth byte, after \<^verbatim>\<open>{"type":\<close>, is a
  quote in the original and a space in the result.
\<close>

theorem C7_line_is_byte_identical_counterexample:
  "filter_last_lines sample_py [LINE_USER_EMPTY] 50 = Inr [LINE_USER_EMPTY_DUMPED]
   \<and> LINE_USER_EMPTY_DUMPED \<noteq> LINE_USER_EMPTY
   \<and> take 8 LINE_USER_EMPTY = ''{'' @ dq ''type'' @ '':''
   \<and> take 8 LINE_USER_EMPTY_DUMPED = ''{'' @ dq ''type'' @ '':''
   \<and> LINE_USER_EMPTY ! 8 = CHR 0x22
   \<and> LINE_USER_EMPTY_DUMPED ! 8 = CHR '' ''"
  by (simp add: filter_last_lines_def filter_line_def slice_last_def sample_py_def
      line_defs sample_line_defs)

text \<open>
  C7, amended. The filter returns at most 50 lines, the last ones of its input, each
  filtered on its own. A line that decodes to a \<^verbatim>\<open>"user"\<close> message whose content is a list is
  replaced by the serialisation of its decoded value in which every block of the list that
  is a dict of type \<^verbatim>\<open>"tool_result"\<close> has the fixed marker as its content, and in which every
  other key and value of the block, of the message and of the line's dict is unchanged, with
  the keys of message and line in their order. Every other line that decodes, and every line
  that does not, is kept byte for byte.
\<close>

theorem C7_redaction_filter:
  "(filter_last_lines py ls 50 = Inr out \<longrightarrow>
      length out \<le> 50
      \<and> (\<exists>fl. filter_lines py ls = Inr fl \<and> length fl = length ls
            \<and> out = drop (length fl - 50) fl
            \<and> (\<forall>i < length ls. filter_line py (ls ! i) = Inr (fl ! i))))
   \<and> (loads py l = Inr d \<and> user_with_list d \<longrightarrow>
        (\<exists>d'. filter_line py l = Inr (dumps py d') \<and> message_redacted d d'))
   \<and> (loads py l = Inr d \<and> \<not> user_with_list d \<longrightarrow> filter_line py l = Inr l)
   \<and> (loads py l = Inl JSONDecodeError \<longrightarrow> filter_line py l = Inr l)"
proof -
  have "length out \<le> 50
      \<and> (\<exists>fl. filter_lines py ls = Inr fl \<and> length fl = length ls
            \<and> out = drop (length fl - 50) fl
            \<and> (\<forall>i < length ls. filter_line py (ls ! i) = Inr (fl ! i)))"
    if "filter_last_lines py ls 50 = Inr out"
  proof -
    from that obtain fl where fl: "filter_lines py ls = Inr fl"
      and out: "out = drop (length fl - 50) fl"
      by (auto simp: filter_last_lines_def slice_last_def split: sum.splits)
    from out have "length out \<le> 50" by simp
    with fl out filter_lines_nth [OF fl] show ?thesis by blast
  qed
  moreover have "filter_line py l = Inr l" if "loads py l = Inl JSONDecodeError"
    using that by (simp add: filter_line_def)
  ultimately show ?thesis
    using filter_line_user filter_line_other by blast
qed

text \<open>
  The theorem for a \<^verbatim>\<open>"user"\<close> line with a \<^verbatim>\<open>tool_result\<close> block, a line that decodes to a
  list, and a line that is not JSON.
\<close>

theorem C7_redaction_filter_witness:
  "filter_last_lines sample_py [LINE_USER, ''plain text''] 50
     = Inr [LINE_USER_DUMPED, ''plain text'']
   \<and> (\<exists>d'. filter_line sample_py LINE_USER = Inr (dumps sample_py d')
          \<and> message_redacted LINE_USER_VALUE d')
   \<and> filter_line sample_py LINE_LIST = Inr LINE_LIST
   \<and> filter_line sample_py ''plain text'' = Inr ''plain text''"
proof -
  have a: "filter_last_lines sample_py [LINE_USER, ''plain text''] 50
     = Inr [LINE_USER_DUMPED, ''plain text'']"
    by (simp add: filter_last_lines_def filter_line_def slice_last_def sample_py_def
        line_defs sample_line_defs TRUNCATED_def)
  have b: "loads sample_py LINE_USER = Inr LINE_USER_VALUE"
    "user_with_list LINE_USER_VALUE"
    "loads sample_py LINE_LIST = Inr LINE_LIST_VALUE" "\<not> user_with_list LINE_LIST_VALUE"
    "loads sample_py ''plain text'' = Inl JSONDecodeError"
    by (simp_all add: sample_py_def sample_line_defs user_with_list_def dict_get_def)
  show ?thesis
    using a b
      C7_redaction_filter [of sample_py "[LINE_USER, ''plain text'']"
        "[LINE_USER_DUMPED, ''plain text'']" LINE_USER LINE_USER_VALUE]
      C7_redaction_filter [of sample_py "[]" "[]" LINE_LIST LINE_LIST_VALUE]
      C7_redaction_filter [of sample_py "[]" "[]" "''plain text''" JNull]
    by simp
qed

section \<open>The classifier is a function of the captured lines (C8)\<close>

text \<open>
  C8. The verdict of an attempt (success flag, error kind, result text, error message, or
  the exception that leaves the tool) is the same for any two states in which the attempt is
  started, given the same child, that is the same captured lines and the same ending of the
  generator with its exit code: every variable the classification reads is assigned anew at
  the top of the loop body, and nothing carried over from earlier attempts (retry count,
  last error, diagnostic lines) reaches it.
\<close>

theorem C8_classification_is_deterministic:
  "verdict (attempt py t p ch s1) = verdict (attempt py t p ch s2)"
proof (cases ch)
  case Unresolved
  then show ?thesis
    by (simp add: attempt_def Let_def verdict_on_exception run_begin_attempt)
next
  case SpawnFails
  then show ?thesis
    by (simp add: attempt_def Let_def verdict_on_exception run_begin_attempt)
next
  case (Streams ls fin)
  obtain st x where c: "consume py t (return_all_messages p) initial_run ls fin = (st, x)"
    by (cases "consume py t (return_all_messages p) initial_run ls fin")
  show ?thesis
  proof (cases x)
    case None
    with Streams c show ?thesis
      by (simp add: attempt_def Let_def run_begin_attempt verdict_on_exception
          split: sum.splits) (simp add: verdict_def)
  next
    case (Some e)
    with Streams c show ?thesis
      by (simp add: attempt_def Let_def run_begin_attempt verdict_on_exception)
  qed
qed

text \<open>
  The theorem for \<^verbatim>\<open>coder_tool\<close> over the child of the specification's scenario (an init
  line with a session identifier, then a result line), started in the initial state and in
  a state left by a failed attempt: both verdicts are the success with text \<^verbatim>\<open>done\<close>.
\<close>

theorem C8_classification_is_deterministic_witness:
  "verdict (attempt sample_py Coder (sample_params 1) answer_child initial_state)
     = verdict (attempt sample_py Coder (sample_params 1) answer_child resumed_state)
   \<and> verdict (attempt sample_py Coder (sample_params 1) answer_child initial_state)
     = Inr (True, None, JStr ''done'', JStr [])"
proof -
  have "verdict (attempt sample_py Coder (sample_params 1) answer_child initial_state)
     = Inr (True, None, JStr ''done'', JStr [])"
    by (simp add: verdict_def run_defs sample_defs line_defs sample_line_defs answer_child_def)
  then show ?thesis
    using C8_classification_is_deterministic
      [of sample_py Coder "sample_params 1" answer_child initial_state resumed_state]
    by simp
qed

section \<open>The retry orchestrator (C9)\<close>

text \<open>
  C9 states that after every failed attempt with \<^verbatim>\<open>attempt < max_retries\<close> the orchestrator
  sleeps and re-invokes. For \<^verbatim>\<open>coder_tool\<close> with \<^verbatim>\<open>max_retries = 2\<close>, a first child that
  ends without output and a second child that hits the duration ceiling, the second attempt
  fails with retry count 1 below \<^verbatim>\<open>max_retries\<close>, and yet the loop stops there: two entries,
  one sleep of 0.5 seconds, outcome of kind \<^verbatim>\<open>timeout\<close>.
\<close>

theorem C9_every_failure_is_retried_counterexample:
  "entered (snd (coder_tool sample_py (sample_params 2)
      (sample_world (first_then silent_child duration_child)))) = 2
   \<and> slept (snd (coder_tool sample_py (sample_params 2)
      (sample_world (first_then silent_child duration_child)))) = [0.5]
   \<and> retries (snd (coder_tool sample_py (sample_params 2)
      (sample_world (first_then silent_child duration_child)))) = 1
   \<and> 1 < max_retries (sample_params 2)
   \<and> map_sum id out_error_kind (fst (coder_tool sample_py (sample_params 2)
      (sample_world (first_then silent_child duration_child)))) = Inr (Some TIMEOUT)"
  by (simp add: run_defs sample_defs)

text \<open>
  C9, amended. The retry count starts at 0. After an attempt that the classifier judged a
  failure (so not one ended by a timeout or by an unresolvable executable) with retry count
  \<open>n < max_retries\<close>, the loop continues from the state with count \<open>n + 1\<close> and one more
  sleep of \<open>0.5 * 2 ^ n\<close> seconds; with \<open>n = max_retries\<close> it stops; and it does not run at all
  when the count exceeds \<^verbatim>\<open>max_retries\<close>. For every call of a tool function the number of
  entries of \<^verbatim>\<open>safe_*_command\<close> is at most \<^verbatim>\<open>max_retries + 1\<close> (none for a negative
  \<^verbatim>\<open>max_retries\<close>), and the sleeps are exactly the first backoff intervals, one per retry.
\<close>

theorem C9_retry_orchestrator:
  "retries initial_state = 0
   \<and> (0 \<le> retries s \<and> retries s < max_retries p
        \<and> attempt py t p (env (entered s)) s = Classified s1 \<and> \<not> success (run s1)
      \<longrightarrow> retry_loop py t p env s =
            retry_loop py t p env
              ((save_error s1)\<lparr>retries := retries s + 1,
                                slept := slept s @ [0.5 * 2 ^ nat (retries s)]\<rparr>))
   \<and> (retries s = max_retries p
        \<and> attempt py t p (env (entered s)) s = Classified s1 \<and> \<not> success (run s1)
      \<longrightarrow> retry_loop py t p env s = LoopDone (save_error s1))
   \<and> (max_retries p < retries s \<longrightarrow> retry_loop py t p env s = LoopDone s)
   \<and> int (entered (snd (tool_fn py t p w))) \<le> max 0 (max_retries p + 1)
   \<and> slept (snd (tool_fn py t p w)) = backoffs (nat (retries (snd (tool_fn py t p w))))"
proof -
  have a: "retries initial_state = 0"
    by (simp add: initial_state_def)
  have b: "retry_loop py t p env s =
            retry_loop py t p env
              ((save_error s1)\<lparr>retries := retries s + 1,
                                slept := slept s @ [0.5 * 2 ^ nat (retries s)]\<rparr>)"
    if "0 \<le> retries s" "retries s < max_retries p"
      "attempt py t p (env (entered s)) s = Classified s1" "\<not> success (run s1)"
    using retry_loop_step [of s p py t env s1] that by (simp add: backoff_nonneg)
  have c: "retry_loop py t p env s = LoopDone (save_error s1)"
    if "retries s = max_retries p"
      "attempt py t p (env (entered s)) s = Classified s1" "\<not> success (run s1)"
    using that by (rule retry_loop_stop)
  have d: "retry_loop py t p env s = LoopDone s" if "max_retries p < retries s"
    using that by (subst retry_loop.simps) simp
  have e: "int (entered (snd (tool_fn py t p w))) \<le> max 0 (max_retries p + 1)
      \<and> slept (snd (tool_fn py t p w)) = backoffs (nat (retries (snd (tool_fn py t p w))))"
  proof (cases "config_failure w")
    case (Some x)
    then show ?thesis
      by (simp add: tool_fn_state initial_state_def backoffs_def)
  next
    case None
    from retry_loop_paced [OF paced_initial, of py t p "children w"] None
    show ?thesis
      by (auto simp: tool_fn_state initial_state_def split: if_splits)
  qed
  from a b c d e show ?thesis by blast
qed

text \<open>
  The theorem for \<^verbatim>\<open>coder_tool\<close> and a child that ends without output: with
  \<^verbatim>\<open>max_retries = 1\<close> the first failure leads to the second attempt after a sleep of 0.5
  seconds, with \<^verbatim>\<open>max_retries = 0\<close> it ends the loop.
\<close>

theorem C9_retry_orchestrator_witness:
  "retry_loop sample_py Coder (sample_params 1) (always silent_child) initial_state =
     retry_loop sample_py Coder (sample_params 1) (always silent_child)
       ((save_error (exit_state (attempt sample_py Coder (sample_params 1) silent_child
           initial_state)))\<lparr>retries := 1, slept := [0.5]\<rparr>)
   \<and> retry_loop sample_py Coder (sample_params 0) (always silent_child) initial_state =
     LoopDone (save_error (exit_state (attempt sample_py Coder (sample_params 0) silent_child
           initial_state)))
   \<and> int (entered (snd (coder_tool sample_py (sample_params 1)
         (sample_world (always silent_child))))) \<le> 2"
proof -
  have a1: "attempt sample_py Coder (sample_params 1) silent_child initial_state =
      Classified (exit_state (attempt sample_py Coder (sample_params 1) silent_child
           initial_state))"
    by (simp add: run_defs sample_defs)
  have f1: "\<not> success (run (exit_state (attempt sample_py Coder (sample_params 1) silent_child
           initial_state)))"
    by (simp add: run_defs sample_defs)
  have a0: "attempt sample_py Coder (sample_params 0) silent_child initial_state =
      Classified (exit_state (attempt sample_py Coder (sample_params 0) silent_child
           initial_state))"
    by (simp add: run_defs sample_defs)
  have f0: "\<not> success (run (exit_state (attempt sample_py Coder (sample_params 0) silent_child
           initial_state)))"
    by (simp add: run_defs sample_defs)
  show ?thesis
    using a1 f1 a0 f0
      C9_retry_orchestrator [of initial_state "sample_params 1" sample_py Coder
        "always silent_child"
        "exit_state (attempt sample_py Coder (sample_params 1) silent_child initial_state)"
        "sample_world (always silent_child)"]
      C9_retry_orchestrator [of initial_state "sample_params 0" sample_py Coder
        "always silent_child"
        "exit_state (attempt sample_py Coder (sample_params 0) silent_child initial_state)"
        "sample_world (always silent_child)"]
    by (simp add: initial_state_def sample_params_def always_def coder_tool_def)
qed

section \<open>Every failure has an error kind (C10)\<close>

text \<open>
  C10. Every outcome a tool function returns with the success flag false carries an error
  kind that is not \<^verbatim>\<open>None\<close> and is one of the nine kinds \<^verbatim>\<open>timeout\<close>, \<^verbatim>\<open>idle_timeout\<close>,
  \<^verbatim>\<open>command_not_found\<close>, \<^verbatim>\<open>upstream_error\<close>, \<^verbatim>\<open>protocol_missing_session\<close>, \<^verbatim>\<open>empty_result\<close>,
  \<^verbatim>\<open>subprocess_error\<close>, \<^verbatim>\<open>config_error\<close>, \<^verbatim>\<open>unexpected_exception\<close>.
\<close>

theorem C10_failure_has_listed_error_kind:
  assumes "fst (tool_fn py t p w) = Inr r" and "\<not> out_success r"
  shows "\<exists>k. out_error_kind r = Some k \<and> k \<in> listed_kinds"
proof (cases "config_failure w")
  case (Some e)
  with assms(1) show ?thesis
    using early_failure_returns [of py t p "clock_ms w" CONFIG_ERROR "MSG_CONFIG_PREFIX @ e" 0]
    by (auto simp: tool_fn_def listed_kinds_def)
next
  case None
  show ?thesis
  proof (cases "retry_loop py t p (children w) initial_state")
    case (LoopRaise e s)
    with assms(1) None show ?thesis by (simp add: tool_fn_def)
  next
    case (LoopReturn m s)
    with assms(1) None show ?thesis
      using early_failure_returns [of py t p "clock_ms w" COMMAND_NOT_FOUND m "retries s"]
      by (auto simp: tool_fn_def listed_kinds_def)
  next
    case (LoopDone s)
    with assms(1) None have fin: "finish py t p (clock_ms w) s = Inr r"
      by (simp add: tool_fn_def)
    then have b: "bound s"
      by (auto simp: finish_def split: if_splits)
    from fin assms(2) have failed: "\<not> success (run s)"
      by (auto simp: finish_def and_then_def split: if_splits sum.splits prod.splits)
    have "settled s"
      using LoopDone settled_initial by (rule retry_loop_settled)
    with b failed obtain le k where "last_error s = Some le" "info_error_kind le = Some k"
      "k \<in> listed_kinds"
      by (auto simp: settled_def)
    with finish_failure [OF fin failed] show ?thesis
      by (simp add: final_error_def)
  qed
qed

text \<open>The theorem for \<^verbatim>\<open>coder_tool\<close> and a child that ends without output.\<close>

theorem C10_failure_has_listed_error_kind_witness:
  "\<exists>r k. fst (coder_tool sample_py (sample_params 0) (sample_world (always silent_child))) = Inr r
      \<and> \<not> out_success r \<and> out_error_kind r = Some k \<and> k \<in> listed_kinds"
proof -
  obtain r where r: "fst (tool_fn sample_py Coder (sample_params 0)
        (sample_world (always silent_child))) = Inr r" and f: "\<not> out_success r"
    by (simp add: run_defs sample_defs MSG_NO_SESSION_def)
  from C10_failure_has_listed_error_kind [OF r f] r f show ?thesis
    by (auto simp: coder_tool_def)
qed

end
